theory Spec2Isabelle
  imports Main "HOL-Library.Word"
begin

section \<open>Data model of main.go\<close>

text \<open>
  A byte slice is a list of characters, a Go \<open>error\<close> is its message, and an instant of
  the clock is a number of nanoseconds (Go compares and adds the readings of
  \<open>time.Now()\<close> on its monotonic clock). A \<open>float64\<close> is kept as its 64 bits: the
  program only stores and copies tariffs, and the constant 0 is the all-zero pattern.
\<close>

type_synonym bytes = string
type_synonym error = string
type_synonym instant = int
type_synonym float64 = "64 word"

text \<open>\<open>type Data struct\<close>\<close>

record Data =
  CurrentTarif :: float64
  TarifLib :: string
  TodayColor :: string
  TomorrowColor :: string
  LastUpdated :: instant

text \<open>\<open>type TempoResponse struct\<close> and \<open>type NowResponse struct\<close>\<close>

record TempoResponse =
  DateJour :: string
  CodeJour :: int
  Periode :: string

record NowResponse =
  ApplicableIn :: int
  CodeCouleur :: int
  CodeHoraire :: int
  TarifKwh :: float64
  LibTarif :: string

text \<open>\<open>type cacheEntry struct\<close>\<close>

record cacheEntry =
  data :: bytes
  expires :: instant

text \<open>
  What \<open>httpClient.Get(url)\<close> followed by \<open>io.ReadAll(resp.Body)\<close> can give: a transport
  error (a timeout of the client is one), or a response with its status code and the
  outcome of reading its body.
\<close>

datatype response = GetError error | Response int "error + bytes"

text \<open>
  The surroundings of the program. The \<open>k\<close>-th call of \<open>time.Now()\<close> returns
  \<open>timeNow k\<close>, the \<open>k\<close>-th call of \<open>httpClient.Get\<close> is answered by \<open>httpGet k\<close>,
  and \<open>json.Unmarshal\<close> into each of the two response types is a function from bytes
  to an error or a value.
\<close>

record env =
  timeNow :: "nat \<Rightarrow> instant"
  httpGet :: "nat \<Rightarrow> string \<Rightarrow> response"
  unmarshalTempo :: "bytes \<Rightarrow> error + TempoResponse"
  unmarshalNow :: "bytes \<Rightarrow> error + NowResponse"

text \<open>
  The global variables \<open>currentData\<close> and \<open>cache\<close>, with the list of the URLs requested
  from the network so far (oldest first) and the number of clock readings taken so far.
  Log lines are not modelled.
\<close>

record world =
  currentData :: Data
  cache :: "string \<rightharpoonup> cacheEntry"
  requests :: "string list"
  clockReads :: nat

text \<open>\<open>defaultAPIURL\<close>, \<open>config.CacheTTL\<close> (30 minutes) and \<open>http.StatusOK\<close>\<close>

definition defaultAPIURL :: string where
  "defaultAPIURL = ''https://www.api-couleur-tempo.fr/api''"

definition CacheTTL :: int where
  "CacheTTL = 30 * 60 * 1000000000"

definition StatusOK :: int where
  "StatusOK = 200"

definition url_today :: string where
  "url_today = defaultAPIURL @ ''/jourTempo/today''"

definition url_tomorrow :: string where
  "url_tomorrow = defaultAPIURL @ ''/jourTempo/tomorrow''"

definition url_now :: string where
  "url_now = defaultAPIURL @ ''/now''"

section \<open>The cache and \<open>fetch\<close>\<close>

definition time_now :: "env \<Rightarrow> world \<Rightarrow> instant \<times> world" where
  "time_now ev w = (timeNow ev (clockReads w), w\<lparr>clockReads := Suc (clockReads w)\<rparr>)"

text \<open>
  The lookup of \<open>fetch\<close>: \<open>entry, exists := cache[url]\<close>, then
  \<open>exists && time.Now().Before(entry.expires)\<close>, then \<open>entry.data\<close>.
\<close>

definition cache_get :: "(string \<rightharpoonup> cacheEntry) \<Rightarrow> string \<Rightarrow> instant \<Rightarrow> bytes option" where
  "cache_get c url now =
     (case c url of
        None \<Rightarrow> None
      | Some entry \<Rightarrow> if now < expires entry then Some (data entry) else None)"

text \<open>
  The store of \<open>fetch\<close>:
  \<open>cache[url] = &cacheEntry{data: body, expires: time.Now().Add(config.CacheTTL)}\<close>.
\<close>

definition cache_put ::
  "(string \<rightharpoonup> cacheEntry) \<Rightarrow> string \<Rightarrow> bytes \<Rightarrow> instant \<Rightarrow> int \<Rightarrow> (string \<rightharpoonup> cacheEntry)" where
  "cache_put c url body now ttl = c(url \<mapsto> \<lparr>data = body, expires = now + ttl\<rparr>)"

text \<open>The part of \<open>fetch\<close> after the cache lookup has missed: the HTTP request.\<close>

definition fetch_miss ::
  "(bytes \<Rightarrow> error + 'a) \<Rightarrow> env \<Rightarrow> string \<Rightarrow> world \<Rightarrow> (error + 'a) \<times> world" where
  "fetch_miss unmarshal ev url w =
     (let w1 = w\<lparr>requests := requests w @ [url]\<rparr> in
      case httpGet ev (length (requests w)) url of
        GetError err \<Rightarrow> (Inl err, w1)
      | Response status rd \<Rightarrow>
          if status \<noteq> StatusOK then (Inl ''unexpected status code'', w1)
          else
            (case rd of
               Inl err \<Rightarrow> (Inl err, w1)
             | Inr body \<Rightarrow>
                 (case unmarshal body of
                    Inl err \<Rightarrow> (Inl err, w1)
                  | Inr result \<Rightarrow>
                      let (now, w2) = time_now ev w1 in
                      (Inr result, w2\<lparr>cache := cache_put (cache w2) url body now CacheTTL\<rparr>))))"

text \<open>
  \<open>func fetch[T any](url string) (T, error)\<close>. The clock is read for the lookup only
  when the map has an entry for the URL (\<open>&&\<close> evaluates its right side only then).
\<close>

definition fetch ::
  "(bytes \<Rightarrow> error + 'a) \<Rightarrow> env \<Rightarrow> string \<Rightarrow> world \<Rightarrow> (error + 'a) \<times> world" where
  "fetch unmarshal ev url w =
     (case cache w url of
        None \<Rightarrow> fetch_miss unmarshal ev url w
      | Some entry \<Rightarrow>
          let (now, w1) = time_now ev w in
          (case cache_get (cache w) url now of
             Some d \<Rightarrow>
               (case unmarshal d of
                  Inl err \<Rightarrow> (Inl err, w1)
                | Inr result \<Rightarrow> (Inr result, w1))
           | None \<Rightarrow> fetch_miss unmarshal ev url w1))"

section \<open>The refresh\<close>

text \<open>\<open>func codeToColor(code int) string\<close>\<close>

definition codeToColor :: "int \<Rightarrow> string" where
  "codeToColor code =
     (if code = 1 then ''BLEU''
      else if code = 2 then ''BLANC''
      else if code = 3 then ''ROUGE''
      else ''INCONNU'')"

text \<open>
  \<open>func updateColors()\<close>, the body run between \<open>dataMaj.Lock()\<close> and the deferred
  \<open>dataMaj.Unlock()\<close>.
\<close>

definition updateColors :: "env \<Rightarrow> world \<Rightarrow> world" where
  "updateColors ev w =
     (case fetch (unmarshalTempo ev) ev url_today w of
        (Inl err, w1) \<Rightarrow> w1\<lparr>currentData := (currentData w1)\<lparr>TodayColor := ''ERREUR''\<rparr>\<rparr>
      | (Inr today, w1) \<Rightarrow>
          let w2 = w1\<lparr>currentData := (currentData w1)\<lparr>TodayColor := codeToColor (CodeJour today)\<rparr>\<rparr> in
          (case fetch (unmarshalTempo ev) ev url_tomorrow w2 of
             (Inl err, w3) \<Rightarrow> w3\<lparr>currentData := (currentData w3)\<lparr>TomorrowColor := ''ERREUR''\<rparr>\<rparr>
           | (Inr tomorrow, w3) \<Rightarrow>
               w3\<lparr>currentData := (currentData w3)\<lparr>TomorrowColor := codeToColor (CodeJour tomorrow)\<rparr>\<rparr>))"

text \<open>\<open>func updateCurrentTarif()\<close>, likewise the body run under \<open>dataMaj\<close>.\<close>

definition updateCurrentTarif :: "env \<Rightarrow> world \<Rightarrow> world" where
  "updateCurrentTarif ev w =
     (case fetch (unmarshalNow ev) ev url_now w of
        (Inl err, w1) \<Rightarrow> w1\<lparr>currentData := (currentData w1)\<lparr>CurrentTarif := 0, TarifLib := ''Erreur''\<rparr>\<rparr>
      | (Inr now, w1) \<Rightarrow>
          w1\<lparr>currentData := (currentData w1)\<lparr>CurrentTarif := TarifKwh now, TarifLib := LibTarif now\<rparr>\<rparr>)"

text \<open>
  \<open>func updateData()\<close> starts the two updates as goroutines and waits for both. Each
  holds the mutex \<open>dataMaj\<close> from its first statement to its return, so one runs wholly
  before the other; which one is first is the scheduler's choice.
\<close>

datatype schedule = ColorsFirst | TarifFirst

definition updateData :: "schedule \<Rightarrow> env \<Rightarrow> world \<Rightarrow> world" where
  "updateData sched ev w =
     (case sched of
        ColorsFirst \<Rightarrow> updateCurrentTarif ev (updateColors ev w)
      | TarifFirst \<Rightarrow> updateColors ev (updateCurrentTarif ev w))"

text \<open>The world in which the HTTP request of a missing \<open>fetch\<close> starts.\<close>

definition after_lookup :: "string \<Rightarrow> world \<Rightarrow> world" where
  "after_lookup url w =
     (if cache w url = None then w else w\<lparr>clockReads := Suc (clockReads w)\<rparr>)"

section \<open>The icon of the tray\<close>

text \<open>
  The global variables \<open>icnBlanc\<close>, \<open>icnRouge\<close>, \<open>icnBleu\<close>, and what the icon code
  takes from the machine it runs on: \<open>runtime.GOOS\<close>, \<open>strings.Title\<close>, and the
  outcome of \<open>os.ReadFile(filepath.Join(appDir, relPath))\<close> as a function of \<open>relPath\<close>
  (\<open>None\<close> when the read gives an error).
\<close>

record icons =
  icnBlanc :: bytes
  icnRouge :: bytes
  icnBleu :: bytes

record platform =
  GOOS :: string
  Title :: "string \<Rightarrow> string"
  ReadFile :: "string \<Rightarrow> bytes option"

text \<open>
  \<open>strings.ToLower\<close> and \<open>strings.TrimSpace\<close> on ASCII text: an upper-case letter
  (codes 65 to 90) becomes the letter 32 above it, which sets bit 5 of its code, and
  the white space trimmed at both ends is tab, line feed, vertical tab, form feed,
  carriage return and space.
\<close>

definition to_lower_char :: "char \<Rightarrow> char" where
  "to_lower_char c =
     (if 65 \<le> (of_char c :: nat) \<and> (of_char c :: nat) \<le> 90
      then (case c of Char b0 b1 b2 b3 b4 b5 b6 b7 \<Rightarrow> Char b0 b1 b2 b3 b4 True b6 b7)
      else c)"

definition ToLower :: "string \<Rightarrow> string" where
  "ToLower s = map to_lower_char s"

definition isSpace :: "char \<Rightarrow> bool" where
  "isSpace c = ((of_char c :: nat) \<in> {9, 10, 11, 12, 13, 32})"

definition TrimSpace :: "string \<Rightarrow> string" where
  "TrimSpace s = rev (dropWhile isSpace (rev (dropWhile isSpace s)))"

text \<open>\<open>func mustAsset(relPath string) []byte\<close>; a panic is the left result.\<close>

definition mustAsset :: "platform \<Rightarrow> string \<Rightarrow> error + bytes" where
  "mustAsset pf relPath =
     (case ReadFile pf relPath of
        None \<Rightarrow> Inl (''Erreur chargement asset '' @ relPath)
      | Some d \<Rightarrow>
          if length d = 0 then Inl (''Asset '' @ relPath @ '' est vide'') else Inr d)"

text \<open>
  The part of \<open>func init()\<close> that loads the three icons. Only the case \<open>windows\<close> of
  its \<open>switch\<close> names files; on another system the three paths stay empty.
\<close>

definition init :: "platform \<Rightarrow> error + icons" where
  "init pf =
     (let (blancExt, rougeExt, bleuExt) =
        (if GOOS pf = ''windows''
         then (''assets/white.ico'', ''assets/red.ico'', ''assets/blue.ico'')
         else ([], [], []))
      in case mustAsset pf blancExt of
           Inl p \<Rightarrow> Inl p
         | Inr blanc \<Rightarrow>
             (case mustAsset pf rougeExt of
                Inl p \<Rightarrow> Inl p
              | Inr rouge \<Rightarrow>
                  (case mustAsset pf bleuExt of
                     Inl p \<Rightarrow> Inl p
                   | Inr bleu \<Rightarrow> Inr \<lparr>icnBlanc = blanc, icnRouge = rouge, icnBleu = bleu\<rparr>)))"

text \<open>
  The loop of \<open>loadIcon\<close> over \<open>iconPaths\<close>: the first file that can be read and has
  more than 100 bytes, or else the white icon.
\<close>

fun first_icon :: "platform \<Rightarrow> string list \<Rightarrow> bytes \<Rightarrow> bytes" where
  "first_icon pf [] fallback = fallback"
| "first_icon pf (relPath # rest) fallback =
     (case ReadFile pf relPath of
        Some d \<Rightarrow> if length d > 100 then d else first_icon pf rest fallback
      | None \<Rightarrow> first_icon pf rest fallback)"

text \<open>\<open>func loadIcon(colorName string) []byte\<close>\<close>

definition loadIcon :: "icons \<Rightarrow> platform \<Rightarrow> string \<Rightarrow> bytes" where
  "loadIcon ic pf colorName =
     (let colorKey = ToLower (TrimSpace colorName) in
      if colorKey = ''blanc'' then icnBlanc ic
      else if colorKey = ''rouge'' then icnRouge ic
      else if colorKey = ''bleu'' then icnBleu ic
      else if colorKey = ''inconnu'' \<or> colorKey = ''erreur'' then icnBlanc ic
      else
        let ext = (if GOOS pf = ''windows'' then ''.ico''
                   else if GOOS pf = ''darwin'' then ''.png''
                   else ''.png'');
            iconPaths = [''assets/'' @ colorKey @ ext,
                         ''assets/'' @ Title pf colorKey @ ext,
                         ''assets/icon_'' @ colorKey @ ext]
        in first_icon pf iconPaths (icnBlanc ic))"

text \<open>
  \<open>func updateIconBasedOnColor()\<close>: the bytes it passes to \<open>systray.SetIcon\<close>.
\<close>

definition updateIconBasedOnColor :: "icons \<Rightarrow> platform \<Rightarrow> world \<Rightarrow> bytes" where
  "updateIconBasedOnColor ic pf w =
     (let icon = loadIcon ic pf (TodayColor (currentData w)) in
      if length icon > 0 then icon else icnBlanc ic)"

section \<open>The goroutines of \<open>updateData\<close>\<close>

text \<open>
  \<open>updateData\<close> sets the counter of its \<open>sync.WaitGroup\<close> to 2, starts one goroutine
  per update and blocks in \<open>wg.Wait()\<close> until the counter is 0. Each goroutine takes
  the mutex \<open>dataMaj\<close> (blocking while the other holds it), runs its body, releases the
  mutex by the deferred \<open>Unlock\<close> and decrements the counter by the deferred \<open>wg.Done()\<close>.
  A body is one step: while it runs its goroutine holds the mutex, and the HTTP client
  gives every request an answer or a timeout error, which is what \<open>httpGet\<close> returns.
\<close>

datatype pc = AtLock | InBody | AtUnlock | AtDone | Finished

datatype goroutine = Colors | Tarif

record run =
  colors_pc :: pc
  tarif_pc :: pc
  dataMaj :: "goroutine option"
  wg :: int
  returned :: bool
  wld :: world

definition start :: "world \<Rightarrow> run" where
  "start w =
     \<lparr>colors_pc = AtLock, tarif_pc = AtLock, dataMaj = None, wg = 2, returned = False, wld = w\<rparr>"

inductive step :: "env \<Rightarrow> run \<Rightarrow> run \<Rightarrow> bool" for ev :: env where
  lock_colors:
    "colors_pc s = AtLock \<Longrightarrow> dataMaj s = None \<Longrightarrow>
     step ev s (s\<lparr>colors_pc := InBody, dataMaj := Some Colors\<rparr>)"
| body_colors:
    "colors_pc s = InBody \<Longrightarrow>
     step ev s (s\<lparr>colors_pc := AtUnlock, wld := updateColors ev (wld s)\<rparr>)"
| unlock_colors:
    "colors_pc s = AtUnlock \<Longrightarrow>
     step ev s (s\<lparr>colors_pc := AtDone, dataMaj := None\<rparr>)"
| done_colors:
    "colors_pc s = AtDone \<Longrightarrow>
     step ev s (s\<lparr>colors_pc := Finished, wg := wg s - 1\<rparr>)"
| lock_tarif:
    "tarif_pc s = AtLock \<Longrightarrow> dataMaj s = None \<Longrightarrow>
     step ev s (s\<lparr>tarif_pc := InBody, dataMaj := Some Tarif\<rparr>)"
| body_tarif:
    "tarif_pc s = InBody \<Longrightarrow>
     step ev s (s\<lparr>tarif_pc := AtUnlock, wld := updateCurrentTarif ev (wld s)\<rparr>)"
| unlock_tarif:
    "tarif_pc s = AtUnlock \<Longrightarrow>
     step ev s (s\<lparr>tarif_pc := AtDone, dataMaj := None\<rparr>)"
| done_tarif:
    "tarif_pc s = AtDone \<Longrightarrow>
     step ev s (s\<lparr>tarif_pc := Finished, wg := wg s - 1\<rparr>)"
| wait_returns:
    "wg s = 0 \<Longrightarrow> \<not> returned s \<Longrightarrow>
     step ev s (s\<lparr>returned := True\<rparr>)"

code_pred step .

text \<open>The number of steps a goroutine, and the whole call, still has to take.\<close>

fun togo :: "pc \<Rightarrow> nat" where
  "togo AtLock = 4"
| "togo InBody = 3"
| "togo AtUnlock = 2"
| "togo AtDone = 1"
| "togo Finished = 0"

definition remaining :: "run \<Rightarrow> nat" where
  "remaining s = togo (colors_pc s) + togo (tarif_pc s) + (if returned s then 0 else 1)"

text \<open>Whether a goroutine has run its body, and whether it holds the mutex.\<close>

definition ran :: "pc \<Rightarrow> bool" where
  "ran p = (p = AtUnlock \<or> p = AtDone \<or> p = Finished)"

definition holds :: "pc \<Rightarrow> bool" where
  "holds p = (p = InBody \<or> p = AtUnlock)"

text \<open>
  What holds in every state of a call started in the world \<open>w\<close>: the counter counts the
  unfinished goroutines, the mutex is held by the goroutine between its \<open>Lock\<close> and its
  \<open>Unlock\<close> and by no other, the call has returned only when both have finished, and
  the world is the one the bodies run so far have made.
\<close>

definition run_inv :: "env \<Rightarrow> world \<Rightarrow> run \<Rightarrow> bool" where
  "run_inv ev w s =
     (wg s = (if colors_pc s = Finished then 0 else 1) + (if tarif_pc s = Finished then 0 else 1)
      \<and> dataMaj s =
          (if holds (colors_pc s) then Some Colors
           else if holds (tarif_pc s) then Some Tarif else None)
      \<and> \<not> (holds (colors_pc s) \<and> holds (tarif_pc s))
      \<and> (if returned s then colors_pc s = Finished \<and> tarif_pc s = Finished else True)
      \<and> (if ran (colors_pc s)
          then (if ran (tarif_pc s)
                then wld s = updateData ColorsFirst ev w \<or> wld s = updateData TarifFirst ev w
                else wld s = updateColors ev w)
          else (if ran (tarif_pc s)
                then wld s = updateCurrentTarif ev w
                else wld s = w)))"

section \<open>Wall-clock time and the midnight scheduler\<close>

text \<open>
  The part of Go's package \<open>time\<close> that \<open>scheduleMidnightNotification\<close> uses, on the
  proleptic Gregorian calendar. A \<open>Time\<close> is a count of seconds since 1 January of
  year 1, 00:00:00 UTC, a count of nanoseconds within the second, and a location; the
  location is a fixed offset in seconds east of UTC, so there are no daylight-saving
  changes. The functions follow the package's \<open>absDate\<close>, \<open>daysSinceEpoch\<close>, \<open>norm\<close>,
  \<open>Date\<close>, \<open>Clock\<close> and \<open>Sub\<close>; divisions are on the integers, rounding down.
\<close>

record Time =
  sec :: int
  nsec :: int
  Location :: int

definition secondsPerDay :: int where
  "secondsPerDay = 86400"

definition daysPer400Years :: int where
  "daysPer400Years = 146097"

definition daysPer100Years :: int where
  "daysPer100Years = 36524"

definition daysPer4Years :: int where
  "daysPer4Years = 1461"

definition Second :: int where
  "Second = 1000000000"

text \<open>\<open>daysBefore[m]\<close>: the days of a non-leap year before month \<open>m + 1\<close>.\<close>

definition daysBefore :: "int \<Rightarrow> int" where
  "daysBefore m = [0, 31, 59, 90, 120, 151, 181, 212, 243, 273, 304, 334, 365] ! nat m"

definition isLeap :: "int \<Rightarrow> bool" where
  "isLeap year = (year mod 4 = 0 \<and> (year mod 100 \<noteq> 0 \<or> year mod 400 = 0))"

text \<open>The local seconds since the epoch: \<open>t.abs()\<close>, up to the shift of the epoch.\<close>

definition abs_local :: "Time \<Rightarrow> int" where
  "abs_local t = sec t + Location t"

text \<open>
  \<open>absDate\<close>, from the number of days since the epoch: the year, the month (1 to 12)
  and the day of the month.
\<close>

definition absDate :: "int \<Rightarrow> int \<times> int \<times> int" where
  "absDate days =
     (let n400 = days div daysPer400Years;
          d0 = days - daysPer400Years * n400;
          n100' = d0 div daysPer100Years;
          n100 = n100' - n100' div 4;
          d1 = d0 - daysPer100Years * n100;
          n4 = d1 div daysPer4Years;
          d2 = d1 - daysPer4Years * n4;
          n1' = d2 div 365;
          n1 = n1' - n1' div 4;
          yday = d2 - 365 * n1;
          year = 400 * n400 + 100 * n100 + 4 * n4 + n1 + 1
      in if isLeap year \<and> yday = 31 + 29 - 1 then (year, 2, 29)
         else
           let day = (if isLeap year \<and> yday > 31 + 29 - 1 then yday - 1 else yday);
               month = day div 31;
               end1 = daysBefore (month + 1)
           in if day \<ge> end1 then (year, month + 2, day - end1 + 1)
              else (year, month + 1, day - daysBefore month + 1))"

definition Year :: "Time \<Rightarrow> int" where
  "Year t = fst (absDate (abs_local t div secondsPerDay))"

definition Month :: "Time \<Rightarrow> int" where
  "Month t = fst (snd (absDate (abs_local t div secondsPerDay)))"

definition Day :: "Time \<Rightarrow> int" where
  "Day t = snd (snd (absDate (abs_local t div secondsPerDay)))"

text \<open>\<open>Clock\<close>: the hour, minute and second within the day.\<close>

definition Clock :: "Time \<Rightarrow> int \<times> int \<times> int" where
  "Clock t =
     (let s = abs_local t mod secondsPerDay;
          hour = s div 3600;
          s1 = s - hour * 3600;
          minute = s1 div 60
      in (hour, minute, s1 - minute * 60))"

text \<open>\<open>norm(hi, lo, base)\<close> brings \<open>lo\<close> into the range from 0 to \<open>base - 1\<close>.\<close>

definition norm :: "int \<Rightarrow> int \<Rightarrow> int \<Rightarrow> int \<times> int" where
  "norm hi lo base =
     (let (hi1, lo1) =
        (if lo < 0
         then (let n = (- lo - 1) div base + 1 in (hi - n, lo + n * base))
         else (hi, lo))
      in if lo1 \<ge> base
         then (let n = lo1 div base in (hi1 + n, lo1 - n * base))
         else (hi1, lo1))"

definition daysSinceEpoch :: "int \<Rightarrow> int" where
  "daysSinceEpoch year =
     (let y = year - 1;
          n400 = y div 400;
          y1 = y - 400 * n400;
          n100 = y1 div 100;
          y2 = y1 - 100 * n100;
          n4 = y2 div 4;
          y3 = y2 - 4 * n4
      in daysPer400Years * n400 + daysPer100Years * n100 + daysPer4Years * n4 + 365 * y3)"

text \<open>\<open>Date(year, month, day, hour, min, sec, nsec, loc)\<close>\<close>

definition Date :: "int \<Rightarrow> int \<Rightarrow> int \<Rightarrow> int \<Rightarrow> int \<Rightarrow> int \<Rightarrow> int \<Rightarrow> int \<Rightarrow> Time" where
  "Date year month day hour minute second nanos loc =
     (let (year1, m) = norm year (month - 1) 12;
          month1 = m + 1;
          (second1, nanos1) = norm second nanos 1000000000;
          (minute1, second2) = norm minute second1 60;
          (hour1, minute2) = norm hour minute1 60;
          (day1, hour2) = norm day hour1 24;
          d = daysSinceEpoch year1 + daysBefore (month1 - 1)
              + (if isLeap year1 \<and> month1 \<ge> 3 then 1 else 0) + (day1 - 1);
          abs = d * secondsPerDay + hour2 * 3600 + minute2 * 60 + second2
      in \<lparr>sec = abs - loc, nsec = nanos1, Location = loc\<rparr>)"

text \<open>
  \<open>t.Sub(u)\<close> for times without monotonic reading (\<open>time.Date\<close> gives none): the
  difference in nanoseconds, or the largest or smallest \<open>Duration\<close> when it does not
  fit 64 bits.
\<close>

definition Sub :: "Time \<Rightarrow> Time \<Rightarrow> int" where
  "Sub t u =
     (let d = (sec t - sec u) * Second + (nsec t - nsec u) in
      if d < - (2 ^ 63) then - (2 ^ 63)
      else if d > 2 ^ 63 - 1 then 2 ^ 63 - 1
      else d)"

text \<open>
  The first statements of the loop of \<open>scheduleMidnightNotification\<close>, as functions of
  the reading \<open>now := time.Now()\<close>:
  \<open>nextMidnight := time.Date(now.Year(), now.Month(), now.Day()+1, 0, 0, 0, 0, now.Location())\<close>
  and \<open>duration := nextMidnight.Sub(now)\<close>, the time the loop then sleeps.
\<close>

definition nextMidnight :: "Time \<Rightarrow> Time" where
  "nextMidnight now = Date (Year now) (Month now) (Day now + 1) 0 0 0 0 (Location now)"

definition duration :: "Time \<Rightarrow> int" where
  "duration now = Sub (nextMidnight now) now"

text \<open>
  The loop of \<open>scheduleMidnightNotification\<close> never ends; its first \<open>n\<close> cycles, from
  cycle number \<open>k\<close> on, are run here. Cycle \<open>i\<close> reads the wall clock (\<open>wall i\<close>),
  sleeps for \<open>duration\<close> of that reading and then refreshes the data (\<open>order i\<close> is the
  order in which the two updates of that refresh take the mutex). The result is the
  list of the sleeps and the world after the last refresh; the icon and the
  notification are not modelled.
\<close>

fun scheduleMidnightNotification ::
  "nat \<Rightarrow> nat \<Rightarrow> (nat \<Rightarrow> Time) \<Rightarrow> (nat \<Rightarrow> schedule) \<Rightarrow> env \<Rightarrow> world \<Rightarrow> int list \<times> world" where
  "scheduleMidnightNotification 0 k wall order ev w = ([], w)"
| "scheduleMidnightNotification (Suc n) k wall order ev w =
     (let now = wall k;
          sleep = duration now;
          w1 = updateData (order k) ev w;
          (sleeps, w2) = scheduleMidnightNotification n (Suc k) wall order ev w1
      in (sleep # sleeps, w2))"

section \<open>Sample surroundings\<close>

definition body_code :: "string \<Rightarrow> bytes" where
  "body_code digits = ''{'' @ [CHR 0x22] @ ''codeJour'' @ [CHR 0x22] @ '':'' @ digits @ ''}''"

text \<open>
  A decoder that gives what \<open>json.Unmarshal\<close> gives on the bodies
  \<open>{"codeJour":1}\<close>, \<open>{"codeJour":2}\<close> and \<open>{"codeJour":3}\<close>, and an error elsewhere.
\<close>

definition sample_unmarshalTempo :: "bytes \<Rightarrow> error + TempoResponse" where
  "sample_unmarshalTempo b =
     (if b = body_code ''1'' then Inr \<lparr>DateJour = [], CodeJour = 1, Periode = []\<rparr>
      else if b = body_code ''2'' then Inr \<lparr>DateJour = [], CodeJour = 2, Periode = []\<rparr>
      else if b = body_code ''3'' then Inr \<lparr>DateJour = [], CodeJour = 3, Periode = []\<rparr>
      else Inl ''invalid character'')"

definition body_tarif :: bytes where
  "body_tarif = ''{'' @ [CHR 0x22] @ ''libTarif'' @ [CHR 0x22] @ '':'' @
     [CHR 0x22] @ ''HP'' @ [CHR 0x22] @ ''}''"

definition sample_unmarshalNow :: "bytes \<Rightarrow> error + NowResponse" where
  "sample_unmarshalNow b =
     (if b = body_tarif
      then Inr \<lparr>ApplicableIn = 0, CodeCouleur = 0, CodeHoraire = 0, TarifKwh = 0, LibTarif = ''HP''\<rparr>
      else Inl ''invalid character'')"

text \<open>
  A network on which every request succeeds (today red, tomorrow blue), and a clock
  that advances by one second per reading.
\<close>

definition sample_env :: env where
  "sample_env =
     \<lparr>timeNow = (\<lambda>k. 1000000000 * int k),
      httpGet = (\<lambda>k url.
         if url = url_today then Response 200 (Inr (body_code ''3''))
         else if url = url_tomorrow then Response 200 (Inr (body_code ''1''))
         else if url = url_now then Response 200 (Inr body_tarif)
         else Response 404 (Inr [])),
      unmarshalTempo = sample_unmarshalTempo,
      unmarshalNow = sample_unmarshalNow\<rparr>"

text \<open>The state of the program when it starts: \<open>currentData = &Data{}\<close>, an empty cache.\<close>

definition initial_world :: world where
  "initial_world =
     \<lparr>currentData = \<lparr>CurrentTarif = 0, TarifLib = [], TodayColor = [], TomorrowColor = [],
                     LastUpdated = 0\<rparr>,
      cache = Map.empty, requests = [], clockReads = 0\<rparr>"

text \<open>A network on which every request ends in a timeout of the client.\<close>

definition offline_env :: env where
  "offline_env = sample_env\<lparr>httpGet := (\<lambda>k url. GetError ''context deadline exceeded'')\<rparr>"

text \<open>
  A state whose cache holds, for today's URL, bytes that are not JSON, valid until the
  instant 5 s.
\<close>

definition corrupt_world :: world where
  "corrupt_world =
     initial_world\<lparr>cache := [url_today \<mapsto> \<lparr>data = ''<html>'', expires = 5000000000\<rparr>]\<rparr>"

text \<open>
  A network on which the request for today's colour ends in a timeout and every other
  request succeeds, and a state left by an earlier refresh (today white, tomorrow red)
  whose cache has been emptied.
\<close>

definition today_down_env :: env where
  "today_down_env =
     sample_env\<lparr>httpGet := (\<lambda>k url.
        if url = url_today then GetError ''context deadline exceeded''
        else httpGet sample_env k url)\<rparr>"

definition stale_world :: world where
  "stale_world =
     initial_world\<lparr>currentData :=
       \<lparr>CurrentTarif = 1, TarifLib = ''HC'', TodayColor = ''BLANC'', TomorrowColor = ''ROUGE'',
        LastUpdated = 0\<rparr>\<rparr>"

text \<open>A network on which the request for the tariff ends in a timeout and the others succeed.\<close>

definition tarif_down_env :: env where
  "tarif_down_env =
     sample_env\<lparr>httpGet := (\<lambda>k url.
        if url = url_now then GetError ''context deadline exceeded''
        else httpGet sample_env k url)\<rparr>"

text \<open>A network on which the request for tomorrow's colour ends in a timeout and the others succeed.\<close>

definition tomorrow_down_env :: env where
  "tomorrow_down_env =
     sample_env\<lparr>httpGet := (\<lambda>k url.
        if url = url_tomorrow then GetError ''context deadline exceeded''
        else httpGet sample_env k url)\<rparr>"

text \<open>A Windows machine with the three icon files, of one byte each, beside the executable.\<close>

definition sample_platform :: platform where
  "sample_platform =
     \<lparr>GOOS = ''windows'',
      Title = (\<lambda>s. s),
      ReadFile = (\<lambda>p.
         if p = ''assets/white.ico'' then Some ''W''
         else if p = ''assets/red.ico'' then Some ''R''
         else if p = ''assets/blue.ico'' then Some ''B''
         else None)\<rparr>"

text \<open>
  Two readings of the wall clock in a zone one hour east of UTC: 31 December 2024 at
  23:59:59, and the same day at 00:00:00.
\<close>

definition last_second :: Time where
  "last_second = \<lparr>sec = 63871282799, nsec = 0, Location = 3600\<rparr>"

definition at_midnight :: Time where
  "at_midnight = \<lparr>sec = 63871196400, nsec = 0, Location = 3600\<rparr>"

section \<open>Properties of the cache\<close>

lemma url_distinct:
  "url_today \<noteq> url_tomorrow" "url_today \<noteq> url_now" "url_tomorrow \<noteq> url_now"
  by (simp_all add: url_today_def url_tomorrow_def url_now_def)

lemma fetch_absent:
  "cache w url = None \<Longrightarrow> fetch unmarshal ev url w = fetch_miss unmarshal ev url w"
  by (simp add: fetch_def)

lemma fetch_hit:
  assumes "cache w url = Some entry" and "timeNow ev (clockReads w) < expires entry"
  shows "fetch unmarshal ev url w =
           (unmarshal (data entry), w\<lparr>clockReads := Suc (clockReads w)\<rparr>)"
  using assms by (simp add: fetch_def time_now_def cache_get_def split: sum.splits)

lemma fetch_expired:
  assumes "cache w url = Some entry" and "\<not> timeNow ev (clockReads w) < expires entry"
  shows "fetch unmarshal ev url w =
           fetch_miss unmarshal ev url (w\<lparr>clockReads := Suc (clockReads w)\<rparr>)"
  using assms by (simp add: fetch_def time_now_def cache_get_def)

lemma fetch_missed:
  assumes "cache_get (cache w) url (timeNow ev (clockReads w)) = None"
  shows "fetch unmarshal ev url w = fetch_miss unmarshal ev url (after_lookup url w)"
proof (cases "cache w url")
  case None
  then show ?thesis by (simp add: fetch_absent after_lookup_def)
next
  case (Some entry)
  with assms have "\<not> timeNow ev (clockReads w) < expires entry"
    by (simp add: cache_get_def split: if_splits)
  with Some show ?thesis by (simp add: fetch_expired after_lookup_def)
qed

lemma fetch_miss_requests:
  "requests (snd (fetch_miss unmarshal ev url w)) = requests w @ [url]"
  by (simp add: fetch_miss_def time_now_def Let_def split: response.splits sum.splits)

lemma fetch_miss_currentData:
  "currentData (snd (fetch_miss unmarshal ev url w)) = currentData w"
  by (simp add: fetch_miss_def time_now_def Let_def split: response.splits sum.splits)

lemma fetch_currentData:
  "currentData (snd (fetch unmarshal ev url w)) = currentData w"
  by (simp add: fetch_def fetch_miss_currentData time_now_def Let_def
      split: option.splits sum.splits)

text \<open>
  Claim C2. A lookup of the cache after a store of a body under the same URL gives
  exactly that body at every instant before \<open>now + ttl\<close> and a miss from that instant on;
  the store replaces whatever entry the URL had by the body with expiry \<open>now + ttl\<close>;
  and a \<open>fetch\<close> that reads the stored entry returns its bytes without a request
  before the expiry, and goes to the network from the expiry on.
\<close>

theorem cache_get_after_put:
  "cache_get (cache_put c url body now ttl) url t =
     (if t < now + ttl then Some body else None)
   \<and> cache_put c url body now ttl url = Some \<lparr>data = body, expires = now + ttl\<rparr>
   \<and> fetch Inr ev url (w\<lparr>cache := cache_put (cache w) url body now ttl\<rparr>) =
       (if timeNow ev (clockReads w) < now + ttl
        then (Inr body, w\<lparr>cache := cache_put (cache w) url body now ttl,
                          clockReads := Suc (clockReads w)\<rparr>)
        else fetch_miss Inr ev url
               (w\<lparr>cache := cache_put (cache w) url body now ttl,
                  clockReads := Suc (clockReads w)\<rparr>))"
proof -
  let ?c = "cache_put c url body now ttl"
  let ?w = "w\<lparr>cache := cache_put (cache w) url body now ttl\<rparr>"
  have get: "cache_get ?c url t = (if t < now + ttl then Some body else None)"
    by (simp add: cache_get_def cache_put_def)
  have put: "?c url = Some \<lparr>data = body, expires = now + ttl\<rparr>"
    by (simp add: cache_put_def)
  have entry: "cache ?w url = Some \<lparr>data = body, expires = now + ttl\<rparr>"
    by (simp add: cache_put_def)
  have "fetch Inr ev url ?w =
      (if timeNow ev (clockReads w) < now + ttl
       then (Inr body, ?w\<lparr>clockReads := Suc (clockReads w)\<rparr>)
       else fetch_miss Inr ev url (?w\<lparr>clockReads := Suc (clockReads w)\<rparr>))"
  proof (cases "timeNow ev (clockReads w) < now + ttl")
    case True
    then show ?thesis using fetch_hit [OF entry, of ev Inr] by simp
  next
    case False
    then show ?thesis using fetch_expired [OF entry, of ev Inr] by simp
  qed
  with get put show ?thesis by simp
qed

lemma fetch_miss_GetError:
  assumes "httpGet ev (length (requests w)) url = GetError err"
  shows "fetch_miss unmarshal ev url w = (Inl err, w\<lparr>requests := requests w @ [url]\<rparr>)"
  using assms by (simp add: fetch_miss_def)

lemma fetch_miss_status:
  assumes "httpGet ev (length (requests w)) url = Response status rd"
    and "status \<noteq> StatusOK"
  shows "fetch_miss unmarshal ev url w =
           (Inl ''unexpected status code'', w\<lparr>requests := requests w @ [url]\<rparr>)"
  using assms by (simp add: fetch_miss_def)

lemma fetch_miss_read:
  assumes "httpGet ev (length (requests w)) url = Response StatusOK (Inl err)"
  shows "fetch_miss unmarshal ev url w = (Inl err, w\<lparr>requests := requests w @ [url]\<rparr>)"
  using assms by (simp add: fetch_miss_def)

lemma fetch_miss_decode:
  assumes "httpGet ev (length (requests w)) url = Response StatusOK (Inr body)"
    and "unmarshal body = Inl err"
  shows "fetch_miss unmarshal ev url w = (Inl err, w\<lparr>requests := requests w @ [url]\<rparr>)"
  using assms by (simp add: fetch_miss_def)

lemma fetch_miss_ok:
  assumes "httpGet ev (length (requests w)) url = Response StatusOK (Inr body)"
    and "unmarshal body = Inr v"
  shows "fetch_miss unmarshal ev url w =
           (Inr v, w\<lparr>requests := requests w @ [url], clockReads := Suc (clockReads w),
                     cache := cache_put (cache w) url body (timeNow ev (clockReads w)) CacheTTL\<rparr>)"
  using assms by (simp add: fetch_miss_def time_now_def)

text \<open>
  Claim C3. When the lookup of a \<open>fetch\<close> misses, an error result leaves the cache as
  it was: a transport error gives that error, a status other than 200 gives
  \<open>unexpected status code\<close>, a body that cannot be read or decoded gives the reader's or
  the decoder's error. A value is returned only for a status 200 whose body decodes to
  it, and only then the body is stored, with expiry \<open>CacheTTL\<close> after the clock reading
  taken at the store. So every entry of the cache after the call was there before or
  holds bytes the decoder accepted.
\<close>

theorem fetch_miss_decode_before_cache:
  assumes miss: "cache_get (cache w) url (timeNow ev (clockReads w)) = None"
    and res: "fetch unmarshal ev url w = (r, w')"
  shows "(case r of
            Inl err \<Rightarrow> cache w' = cache w
          | Inr v \<Rightarrow>
              (\<exists>body. httpGet ev (length (requests w)) url = Response StatusOK (Inr body)
                 \<and> unmarshal body = Inr v
                 \<and> cache w' =
                     cache_put (cache w) url body
                       (timeNow ev (clockReads (after_lookup url w))) CacheTTL))
       \<and> (case httpGet ev (length (requests w)) url of
            GetError err \<Rightarrow> r = Inl err
          | Response status rd \<Rightarrow>
              if status \<noteq> StatusOK then r = Inl ''unexpected status code''
              else (case rd of
                      Inl err \<Rightarrow> r = Inl err
                    | Inr body \<Rightarrow> r = unmarshal body))
       \<and> (\<forall>u entry. cache w' u = Some entry \<and> cache w u \<noteq> Some entry \<longrightarrow>
            u = url \<and> unmarshal (data entry) = r \<and> (\<exists>v. r = Inr v))"
proof -
  let ?w1 = "after_lookup url w"
  let ?rq = "httpGet ev (length (requests w)) url"
  have same: "cache ?w1 = cache w" "requests ?w1 = requests w"
    by (simp_all add: after_lookup_def)
  from fetch_missed [OF miss, of unmarshal] res
  have fm: "fetch_miss unmarshal ev url ?w1 = (r, w')" by simp
  have unchanged: ?thesis
    if r: "r = Inl err" and c: "cache w' = cache w"
      and h: "case ?rq of
                GetError err \<Rightarrow> r = Inl err
              | Response status rd \<Rightarrow>
                  if status \<noteq> StatusOK then r = Inl ''unexpected status code''
                  else (case rd of Inl err \<Rightarrow> r = Inl err | Inr body \<Rightarrow> r = unmarshal body)"
    for err
  proof -
    have "\<forall>u entry. cache w' u = Some entry \<and> cache w u \<noteq> Some entry \<longrightarrow>
            u = url \<and> unmarshal (data entry) = r \<and> (\<exists>v. r = Inr v)"
      by (simp add: c)
    moreover have "case r of
            Inl err \<Rightarrow> cache w' = cache w
          | Inr v \<Rightarrow>
              (\<exists>body. ?rq = Response StatusOK (Inr body)
                 \<and> unmarshal body = Inr v
                 \<and> cache w' =
                     cache_put (cache w) url body (timeNow ev (clockReads ?w1)) CacheTTL)"
      by (simp add: r c)
    ultimately show ?thesis using h by blast
  qed
  show ?thesis
  proof (cases ?rq)
    case (GetError err)
    with same have "httpGet ev (length (requests ?w1)) url = GetError err" by simp
    from fetch_miss_GetError [OF this, of unmarshal] fm
    have "r = Inl err" "w' = ?w1\<lparr>requests := requests ?w1 @ [url]\<rparr>" by simp_all
    then have "r = Inl err" "cache w' = cache w" using same by simp_all
    then show ?thesis using GetError by (intro unchanged) simp_all
  next
    case (Response status rd)
    show ?thesis
    proof (cases "status = StatusOK")
      case False
      from Response same have "httpGet ev (length (requests ?w1)) url = Response status rd"
        by simp
      from fetch_miss_status [OF this False, of unmarshal] fm
      have "r = Inl ''unexpected status code''" "w' = ?w1\<lparr>requests := requests ?w1 @ [url]\<rparr>"
        by simp_all
      then have "r = Inl ''unexpected status code''" "cache w' = cache w" using same by simp_all
      then show ?thesis using Response False by (intro unchanged) simp_all
    next
      case True
      show ?thesis
      proof (cases rd)
        case (Inl err)
        with Response True same
        have "httpGet ev (length (requests ?w1)) url = Response StatusOK (Inl err)" by simp
        from fetch_miss_read [OF this, of unmarshal] fm
        have "r = Inl err" "w' = ?w1\<lparr>requests := requests ?w1 @ [url]\<rparr>" by simp_all
        then have "r = Inl err" "cache w' = cache w" using same by simp_all
        then show ?thesis using Response True Inl by (intro unchanged) simp_all
      next
        case (Inr body)
        with Response True same
        have rq1: "httpGet ev (length (requests ?w1)) url = Response StatusOK (Inr body)"
          by simp
        from Response True Inr have rq: "?rq = Response StatusOK (Inr body)" by simp
        show ?thesis
        proof (cases "unmarshal body")
          case (Inl err)
          from fetch_miss_decode [of ev ?w1 url body unmarshal err, OF rq1 Inl] fm
          have "r = Inl err" "w' = ?w1\<lparr>requests := requests ?w1 @ [url]\<rparr>" by simp_all
          then have "r = Inl err" "cache w' = cache w" using same by simp_all
          then show ?thesis using rq Inl by (intro unchanged) simp_all
        next
          case (Inr v)
          from fetch_miss_ok [of ev ?w1 url body unmarshal v, OF rq1 Inr] fm
          have r: "r = Inr v"
            and w': "w' = ?w1\<lparr>requests := requests ?w1 @ [url],
                        clockReads := Suc (clockReads ?w1),
                        cache := cache_put (cache ?w1) url body (timeNow ev (clockReads ?w1)) CacheTTL\<rparr>"
            by simp_all
          from w' same
          have c: "cache w' = cache_put (cache w) url body (timeNow ev (clockReads ?w1)) CacheTTL"
            by simp
          have c1: "case r of
              Inl err \<Rightarrow> cache w' = cache w
            | Inr v \<Rightarrow>
                (\<exists>body. ?rq = Response StatusOK (Inr body)
                   \<and> unmarshal body = Inr v
                   \<and> cache w' =
                       cache_put (cache w) url body (timeNow ev (clockReads ?w1)) CacheTTL)"
            using r rq Inr c by simp
          have c2: "case ?rq of
                GetError err \<Rightarrow> r = Inl err
              | Response status rd \<Rightarrow>
                  if status \<noteq> StatusOK then r = Inl ''unexpected status code''
                  else (case rd of Inl err \<Rightarrow> r = Inl err | Inr body \<Rightarrow> r = unmarshal body)"
            using r rq Inr by simp
          have c3: "\<forall>u entry. cache w' u = Some entry \<and> cache w u \<noteq> Some entry \<longrightarrow>
              u = url \<and> unmarshal (data entry) = r \<and> (\<exists>v. r = Inr v)"
          proof (intro allI impI)
            fix u entry
            assume a: "cache w' u = Some entry \<and> cache w u \<noteq> Some entry"
            then have "u = url" by (auto simp: c cache_put_def split: if_splits)
            moreover from this a have "data entry = body" by (auto simp: c cache_put_def)
            ultimately show "u = url \<and> unmarshal (data entry) = r \<and> (\<exists>v. r = Inr v)"
              using r Inr by simp
          qed
          from c1 c2 c3 show ?thesis by blast
        qed
      qed
    qed
  qed
qed

theorem fetch_miss_decode_before_cache_witness:
  "cache_get (cache initial_world) url_today (timeNow sample_env (clockReads initial_world)) = None
   \<and> fst (fetch sample_unmarshalTempo sample_env url_today initial_world) =
       Inr \<lparr>DateJour = [], CodeJour = 3, Periode = []\<rparr>
   \<and> cache (snd (fetch sample_unmarshalTempo sample_env url_today initial_world)) =
       cache_put Map.empty url_today (body_code ''3'') 0 CacheTTL
   \<and> fst (fetch sample_unmarshalTempo offline_env url_today initial_world) =
       Inl ''context deadline exceeded''
   \<and> cache (snd (fetch sample_unmarshalTempo offline_env url_today initial_world)) = Map.empty"
proof -
  let ?f = "fetch sample_unmarshalTempo sample_env url_today initial_world"
  let ?g = "fetch sample_unmarshalTempo offline_env url_today initial_world"
  have miss: "cache_get (cache initial_world) url_today
      (timeNow sample_env (clockReads initial_world)) = None"
    by (simp add: cache_get_def initial_world_def)
  have miss': "cache_get (cache initial_world) url_today
      (timeNow offline_env (clockReads initial_world)) = None"
    by (simp add: cache_get_def initial_world_def)
  have rq: "httpGet sample_env (length (requests initial_world)) url_today =
      Response StatusOK (Inr (body_code ''3''))"
    by (simp add: sample_env_def StatusOK_def)
  have rq': "httpGet offline_env (length (requests initial_world)) url_today =
      GetError ''context deadline exceeded''"
    by (simp add: offline_env_def)
  have dec: "sample_unmarshalTempo (body_code ''3'') =
      Inr \<lparr>DateJour = [], CodeJour = 3, Periode = []\<rparr>"
    by (simp add: sample_unmarshalTempo_def body_code_def)
  have al: "after_lookup url_today initial_world = initial_world"
    by (simp add: after_lookup_def initial_world_def)
  have t0: "timeNow sample_env (clockReads initial_world) = 0"
    by (simp add: sample_env_def initial_world_def)
  have c0: "cache initial_world = Map.empty"
    by (simp add: initial_world_def)
  have "?f = (fst ?f, snd ?f)" by simp
  note ok = fetch_miss_decode_before_cache [OF miss this]
  have "?g = (fst ?g, snd ?g)" by simp
  note off = fetch_miss_decode_before_cache [OF miss' this]
  from ok have r: "fst ?f = Inr \<lparr>DateJour = [], CodeJour = 3, Periode = []\<rparr>"
    by (simp add: rq dec StatusOK_def)
  from ok have "cache (snd ?f) = cache_put Map.empty url_today (body_code ''3'') 0 CacheTTL"
    by (simp add: r rq al t0 c0)
  moreover from off have r': "fst ?g = Inl ''context deadline exceeded''"
    by (simp add: rq')
  moreover from off have "cache (snd ?g) = Map.empty"
    by (simp add: r' c0)
  ultimately show ?thesis using miss r by simp
qed

lemma cache_get_SomeD:
  assumes "cache_get c url t = Some d"
  shows "\<exists>entry. c url = Some entry \<and> t < expires entry \<and> data entry = d"
  using assms by (auto simp: cache_get_def split: option.splits if_splits)

text \<open>
  Claim C4. When the lookup of a \<open>fetch\<close> hits (an entry is present and the clock
  reading is before its expiry) and the cached bytes do not decode, the \<open>fetch\<close>
  returns the decoder's error and sends no request: the list of requested URLs is as
  before the call.
\<close>

theorem fetch_hit_decode_error:
  assumes hit: "cache_get (cache w) url (timeNow ev (clockReads w)) = Some d"
    and bad: "unmarshal d = Inl err"
  shows "fst (fetch unmarshal ev url w) = Inl err
       \<and> requests (snd (fetch unmarshal ev url w)) = requests w"
proof -
  from cache_get_SomeD [OF hit] obtain entry where
    e: "cache w url = Some entry" "timeNow ev (clockReads w) < expires entry" "data entry = d"
    by blast
  from fetch_hit [OF e(1) e(2), of unmarshal] e(3) bad show ?thesis by simp
qed

theorem fetch_hit_decode_error_witness:
  "cache_get (cache corrupt_world) url_today (timeNow sample_env (clockReads corrupt_world)) =
     Some ''<html>''
   \<and> sample_unmarshalTempo ''<html>'' = Inl ''invalid character''
   \<and> fst (fetch sample_unmarshalTempo sample_env url_today corrupt_world) = Inl ''invalid character''
   \<and> requests (snd (fetch sample_unmarshalTempo sample_env url_today corrupt_world)) = []"
proof -
  have hit: "cache_get (cache corrupt_world) url_today
      (timeNow sample_env (clockReads corrupt_world)) = Some ''<html>''"
    by (simp add: cache_get_def corrupt_world_def initial_world_def sample_env_def)
  have bad: "sample_unmarshalTempo ''<html>'' = Inl ''invalid character''"
    by (simp add: sample_unmarshalTempo_def body_code_def)
  have "requests corrupt_world = []"
    by (simp add: corrupt_world_def initial_world_def)
  with fetch_hit_decode_error
      [where unmarshal = sample_unmarshalTempo and d = "''<html>''", OF hit bad] hit bad
  show ?thesis by simp
qed

text \<open>
  Claim C10. A \<open>fetch\<close> that hits an entry whose bytes do not decode returns the
  decoder's error and changes nothing but the count of clock readings: the cache, with
  the entry in it, and the list of requests stay as they are. This holds in every state
  holding that entry before its expiry, so \<open>n\<close> fetches in a row, each before the
  expiry, all return the same error and leave the same cache.
\<close>

theorem fetch_corrupt_entry_kept:
  assumes bad: "unmarshal (data entry) = Inl err"
    and entry: "cache w url = Some entry"
    and early: "\<forall>k<n. timeNow ev (clockReads w + k) < expires entry"
  shows "(\<forall>w2. cache w2 url = Some entry \<and> timeNow ev (clockReads w2) < expires entry \<longrightarrow>
            fetch unmarshal ev url w2 = (Inl err, w2\<lparr>clockReads := Suc (clockReads w2)\<rparr>))
       \<and> ((\<lambda>w. snd (fetch unmarshal ev url w)) ^^ n) w = w\<lparr>clockReads := clockReads w + n\<rparr>
       \<and> (\<forall>k<n. fst (fetch unmarshal ev url (((\<lambda>w. snd (fetch unmarshal ev url w)) ^^ k) w)) = Inl err)"
proof -
  let ?step = "\<lambda>w. snd (fetch unmarshal ev url w)"
  have one: "fetch unmarshal ev url w2 = (Inl err, w2\<lparr>clockReads := Suc (clockReads w2)\<rparr>)"
    if "cache w2 url = Some entry" and "timeNow ev (clockReads w2) < expires entry" for w2
    using fetch_hit [OF that, of unmarshal] bad by simp
  have iter: "(?step ^^ k) w = w\<lparr>clockReads := clockReads w + k\<rparr>" if "k \<le> n" for k
    using that
  proof (induction k)
    case 0
    show ?case by simp
  next
    case (Suc k)
    then have ih: "(?step ^^ k) w = w\<lparr>clockReads := clockReads w + k\<rparr>"
      and lt: "k < n" by simp_all
    let ?wk = "w\<lparr>clockReads := clockReads w + k\<rparr>"
    have "cache ?wk url = Some entry" using entry by simp
    moreover have "timeNow ev (clockReads ?wk) < expires entry" using early lt by simp
    ultimately have "fetch unmarshal ev url ?wk = (Inl err, ?wk\<lparr>clockReads := Suc (clockReads ?wk)\<rparr>)"
      by (rule one)
    then show ?case by (simp add: ih)
  qed
  have each: "fst (fetch unmarshal ev url ((?step ^^ k) w)) = Inl err" if "k < n" for k
  proof -
    let ?wk = "w\<lparr>clockReads := clockReads w + k\<rparr>"
    have "cache ?wk url = Some entry" using entry by simp
    moreover have "timeNow ev (clockReads ?wk) < expires entry" using early that by simp
    ultimately have "fetch unmarshal ev url ?wk = (Inl err, ?wk\<lparr>clockReads := Suc (clockReads ?wk)\<rparr>)"
      by (rule one)
    moreover have "(?step ^^ k) w = ?wk" using iter [of k] that by simp
    ultimately show ?thesis by simp
  qed
  from one iter [of n] each show ?thesis by blast
qed

theorem fetch_corrupt_entry_kept_witness:
  "sample_unmarshalTempo ''<html>'' = Inl ''invalid character''
   \<and> cache corrupt_world url_today = Some \<lparr>data = ''<html>'', expires = 5000000000\<rparr>
   \<and> ((\<lambda>w. snd (fetch sample_unmarshalTempo sample_env url_today w)) ^^ 3) corrupt_world =
       corrupt_world\<lparr>clockReads := 3\<rparr>
   \<and> fst (fetch sample_unmarshalTempo sample_env url_today
        (((\<lambda>w. snd (fetch sample_unmarshalTempo sample_env url_today w)) ^^ 2) corrupt_world)) =
       Inl ''invalid character''"
proof -
  let ?entry = "\<lparr>data = ''<html>'', expires = 5000000000\<rparr>"
  have bad: "sample_unmarshalTempo (data ?entry) = Inl ''invalid character''"
    by (simp add: sample_unmarshalTempo_def body_code_def)
  have entry: "cache corrupt_world url_today = Some ?entry"
    by (simp add: corrupt_world_def initial_world_def)
  have early: "\<forall>k<3. timeNow sample_env (clockReads corrupt_world + k) < expires ?entry"
    by (simp add: sample_env_def corrupt_world_def initial_world_def)
  have c0: "clockReads corrupt_world = 0"
    by (simp add: corrupt_world_def initial_world_def)
  from fetch_corrupt_entry_kept
      [where unmarshal = sample_unmarshalTempo and entry = ?entry and n = 3, OF bad entry early]
    bad entry c0
  show ?thesis by simp
qed

section \<open>Properties of the refresh\<close>

lemma fetch_miss_cache_other:
  "u \<noteq> url \<Longrightarrow> cache (snd (fetch_miss unmarshal ev url w)) u = cache w u"
  by (simp add: fetch_miss_def time_now_def cache_put_def Let_def
      split: response.splits sum.splits)

lemma fetch_cache_other:
  "u \<noteq> url \<Longrightarrow> cache (snd (fetch unmarshal ev url w)) u = cache w u"
  by (simp add: fetch_def fetch_miss_cache_other time_now_def Let_def
      split: option.splits sum.splits)

lemma fetch_clockReads_mono:
  "clockReads w \<le> clockReads (snd (fetch unmarshal ev url w))"
  by (simp add: fetch_def fetch_miss_def time_now_def cache_put_def Let_def
      split: option.splits response.splits sum.splits)

text \<open>What \<open>updateColors\<close> does in each of its three outcomes.\<close>

lemma updateColors_today_failed:
  assumes "fetch (unmarshalTempo ev) ev url_today w = (Inl err, w1)"
  shows "updateColors ev w = w1\<lparr>currentData := (currentData w)\<lparr>TodayColor := ''ERREUR''\<rparr>\<rparr>"
proof -
  from fetch_currentData [of "unmarshalTempo ev" ev url_today w] assms
  have "currentData w1 = currentData w" by simp
  with assms show ?thesis by (simp add: updateColors_def)
qed

lemma updateColors_tomorrow_failed:
  assumes "fetch (unmarshalTempo ev) ev url_today w = (Inr today, w1)"
    and "fetch (unmarshalTempo ev) ev url_tomorrow
           (w1\<lparr>currentData := (currentData w)\<lparr>TodayColor := codeToColor (CodeJour today)\<rparr>\<rparr>) =
         (Inl err, w3)"
  shows "updateColors ev w =
           w3\<lparr>currentData := (currentData w)\<lparr>TodayColor := codeToColor (CodeJour today),
                                              TomorrowColor := ''ERREUR''\<rparr>\<rparr>"
proof -
  let ?w2 = "w1\<lparr>currentData := (currentData w)\<lparr>TodayColor := codeToColor (CodeJour today)\<rparr>\<rparr>"
  from fetch_currentData [of "unmarshalTempo ev" ev url_today w] assms(1)
  have d1: "currentData w1 = currentData w" by simp
  from fetch_currentData [of "unmarshalTempo ev" ev url_tomorrow ?w2] assms(2)
  have "currentData w3 = (currentData w)\<lparr>TodayColor := codeToColor (CodeJour today)\<rparr>"
    by simp
  with assms d1 show ?thesis by (simp add: updateColors_def)
qed

lemma updateColors_both_ok:
  assumes "fetch (unmarshalTempo ev) ev url_today w = (Inr today, w1)"
    and "fetch (unmarshalTempo ev) ev url_tomorrow
           (w1\<lparr>currentData := (currentData w)\<lparr>TodayColor := codeToColor (CodeJour today)\<rparr>\<rparr>) =
         (Inr tomorrow, w3)"
  shows "updateColors ev w =
           w3\<lparr>currentData := (currentData w)\<lparr>TodayColor := codeToColor (CodeJour today),
                                              TomorrowColor := codeToColor (CodeJour tomorrow)\<rparr>\<rparr>"
proof -
  let ?w2 = "w1\<lparr>currentData := (currentData w)\<lparr>TodayColor := codeToColor (CodeJour today)\<rparr>\<rparr>"
  from fetch_currentData [of "unmarshalTempo ev" ev url_today w] assms(1)
  have d1: "currentData w1 = currentData w" by simp
  from fetch_currentData [of "unmarshalTempo ev" ev url_tomorrow ?w2] assms(2)
  have "currentData w3 = (currentData w)\<lparr>TodayColor := codeToColor (CodeJour today)\<rparr>"
    by simp
  with assms d1 show ?thesis by (simp add: updateColors_def)
qed

text \<open>The three outcomes are all there are.\<close>

lemma updateColors_cases:
  obtains (today_failed) err w1 where
      "fetch (unmarshalTempo ev) ev url_today w = (Inl err, w1)"
      "updateColors ev w = w1\<lparr>currentData := (currentData w)\<lparr>TodayColor := ''ERREUR''\<rparr>\<rparr>"
  | (tomorrow_failed) today w1 err w3 where
      "fetch (unmarshalTempo ev) ev url_today w = (Inr today, w1)"
      "fetch (unmarshalTempo ev) ev url_tomorrow
         (w1\<lparr>currentData := (currentData w)\<lparr>TodayColor := codeToColor (CodeJour today)\<rparr>\<rparr>) =
       (Inl err, w3)"
      "updateColors ev w =
         w3\<lparr>currentData := (currentData w)\<lparr>TodayColor := codeToColor (CodeJour today),
                                            TomorrowColor := ''ERREUR''\<rparr>\<rparr>"
  | (both_ok) today w1 tomorrow w3 where
      "fetch (unmarshalTempo ev) ev url_today w = (Inr today, w1)"
      "fetch (unmarshalTempo ev) ev url_tomorrow
         (w1\<lparr>currentData := (currentData w)\<lparr>TodayColor := codeToColor (CodeJour today)\<rparr>\<rparr>) =
       (Inr tomorrow, w3)"
      "updateColors ev w =
         w3\<lparr>currentData := (currentData w)\<lparr>TodayColor := codeToColor (CodeJour today),
                                            TomorrowColor := codeToColor (CodeJour tomorrow)\<rparr>\<rparr>"
proof -
  obtain r w1 where f1: "fetch (unmarshalTempo ev) ev url_today w = (r, w1)"
    by (cases "fetch (unmarshalTempo ev) ev url_today w")
  show thesis
  proof (cases r)
    case (Inl err)
    with f1 updateColors_today_failed [of ev w err w1] today_failed show thesis by simp
  next
    case (Inr today)
    let ?w2 = "w1\<lparr>currentData := (currentData w)\<lparr>TodayColor := codeToColor (CodeJour today)\<rparr>\<rparr>"
    obtain r2 w3 where f2: "fetch (unmarshalTempo ev) ev url_tomorrow ?w2 = (r2, w3)"
      by (cases "fetch (unmarshalTempo ev) ev url_tomorrow ?w2")
    from f1 Inr have f1': "fetch (unmarshalTempo ev) ev url_today w = (Inr today, w1)" by simp
    show thesis
    proof (cases r2)
      case (Inl err)
      with f2 have f2': "fetch (unmarshalTempo ev) ev url_tomorrow ?w2 = (Inl err, w3)" by simp
      from tomorrow_failed [OF f1' f2' updateColors_tomorrow_failed [OF f1' f2']]
      show thesis .
    next
      case (Inr tomorrow)
      with f2 have f2': "fetch (unmarshalTempo ev) ev url_tomorrow ?w2 = (Inr tomorrow, w3)" by simp
      from both_ok [OF f1' f2' updateColors_both_ok [OF f1' f2']]
      show thesis .
    qed
  qed
qed

text \<open>\<open>updateColors\<close> writes the two colours only, \<open>updateCurrentTarif\<close> the tariff only.\<close>

lemma updateColors_frame:
  "CurrentTarif (currentData (updateColors ev w)) = CurrentTarif (currentData w)"
  "TarifLib (currentData (updateColors ev w)) = TarifLib (currentData w)"
  "LastUpdated (currentData (updateColors ev w)) = LastUpdated (currentData w)"
  by (cases rule: updateColors_cases [of ev w]; simp)+

lemma updateCurrentTarif_failed:
  assumes "fetch (unmarshalNow ev) ev url_now w = (Inl err, w1)"
  shows "updateCurrentTarif ev w =
           w1\<lparr>currentData := (currentData w)\<lparr>CurrentTarif := 0, TarifLib := ''Erreur''\<rparr>\<rparr>"
proof -
  from fetch_currentData [of "unmarshalNow ev" ev url_now w] assms
  have "currentData w1 = currentData w" by simp
  with assms show ?thesis by (simp add: updateCurrentTarif_def)
qed

lemma updateCurrentTarif_ok:
  assumes "fetch (unmarshalNow ev) ev url_now w = (Inr now, w1)"
  shows "updateCurrentTarif ev w =
           w1\<lparr>currentData := (currentData w)\<lparr>CurrentTarif := TarifKwh now, TarifLib := LibTarif now\<rparr>\<rparr>"
proof -
  from fetch_currentData [of "unmarshalNow ev" ev url_now w] assms
  have "currentData w1 = currentData w" by simp
  with assms show ?thesis by (simp add: updateCurrentTarif_def)
qed

lemma updateCurrentTarif_frame:
  "TodayColor (currentData (updateCurrentTarif ev w)) = TodayColor (currentData w)"
  "TomorrowColor (currentData (updateCurrentTarif ev w)) = TomorrowColor (currentData w)"
  "LastUpdated (currentData (updateCurrentTarif ev w)) = LastUpdated (currentData w)"
proof -
  obtain r w1 where f: "fetch (unmarshalNow ev) ev url_now w = (r, w1)"
    by (cases "fetch (unmarshalNow ev) ev url_now w")
  have "TodayColor (currentData (updateCurrentTarif ev w)) = TodayColor (currentData w)
      \<and> TomorrowColor (currentData (updateCurrentTarif ev w)) = TomorrowColor (currentData w)
      \<and> LastUpdated (currentData (updateCurrentTarif ev w)) = LastUpdated (currentData w)"
  proof (cases r)
    case (Inl err)
    with f updateCurrentTarif_failed [of ev w err w1] show ?thesis by simp
  next
    case (Inr now)
    with f updateCurrentTarif_ok [of ev w now w1] show ?thesis by simp
  qed
  then show
    "TodayColor (currentData (updateCurrentTarif ev w)) = TodayColor (currentData w)"
    "TomorrowColor (currentData (updateCurrentTarif ev w)) = TomorrowColor (currentData w)"
    "LastUpdated (currentData (updateCurrentTarif ev w)) = LastUpdated (currentData w)"
    by simp_all
qed

lemma updateCurrentTarif_cache_other:
  "u \<noteq> url_now \<Longrightarrow> cache (updateCurrentTarif ev w) u = cache w u"
proof -
  assume u: "u \<noteq> url_now"
  obtain r w1 where f: "fetch (unmarshalNow ev) ev url_now w = (r, w1)"
    by (cases "fetch (unmarshalNow ev) ev url_now w")
  from fetch_cache_other [OF u, of "unmarshalNow ev" ev w] f
  have "cache w1 u = cache w u" by simp
  with f show ?thesis by (cases r) (simp_all add: updateCurrentTarif_def)
qed

text \<open>
  Claim C7. When the fetch of the current tariff fails, \<open>updateCurrentTarif\<close> sets
  \<open>CurrentTarif\<close> to 0 and \<open>TarifLib\<close> to \<open>Erreur\<close> and leaves every other field of
  \<open>currentData\<close>, \<open>TodayColor\<close> and \<open>TomorrowColor\<close> among them, as it was. In a
  refresh the two tariff fields keep these values whichever update runs first.
\<close>

theorem tarif_failure_frame:
  assumes "fst (fetch (unmarshalNow ev) ev url_now w) = Inl err"
  shows "currentData (updateCurrentTarif ev w) =
           (currentData w)\<lparr>CurrentTarif := 0, TarifLib := ''Erreur''\<rparr>
       \<and> TodayColor (currentData (updateCurrentTarif ev w)) = TodayColor (currentData w)
       \<and> TomorrowColor (currentData (updateCurrentTarif ev w)) = TomorrowColor (currentData w)
       \<and> CurrentTarif (currentData (updateData TarifFirst ev w)) = 0
       \<and> TarifLib (currentData (updateData TarifFirst ev w)) = ''Erreur''
       \<and> (\<forall>w0. w = updateColors ev w0 \<longrightarrow>
            currentData (updateData ColorsFirst ev w0) =
              (currentData (updateColors ev w0))\<lparr>CurrentTarif := 0, TarifLib := ''Erreur''\<rparr>)"
proof -
  obtain w1 where f: "fetch (unmarshalNow ev) ev url_now w = (Inl err, w1)"
    using assms by (cases "fetch (unmarshalNow ev) ev url_now w") simp
  from updateCurrentTarif_failed [OF f]
  have d: "currentData (updateCurrentTarif ev w) =
      (currentData w)\<lparr>CurrentTarif := 0, TarifLib := ''Erreur''\<rparr>"
    by simp
  have "CurrentTarif (currentData (updateData TarifFirst ev w)) = 0"
    "TarifLib (currentData (updateData TarifFirst ev w)) = ''Erreur''"
    by (simp_all add: updateData_def updateColors_frame d)
  moreover have "\<forall>w0. w = updateColors ev w0 \<longrightarrow>
      currentData (updateData ColorsFirst ev w0) =
        (currentData (updateColors ev w0))\<lparr>CurrentTarif := 0, TarifLib := ''Erreur''\<rparr>"
    using d by (auto simp: updateData_def)
  ultimately show ?thesis using d by simp
qed

lemma fetch_offline:
  assumes "cache w url = None"
    and "httpGet ev (length (requests w)) url = GetError err"
  shows "fetch unmarshal ev url w = (Inl err, w\<lparr>requests := requests w @ [url]\<rparr>)"
  using assms by (simp add: fetch_absent fetch_miss_GetError)

lemma fetch_online:
  assumes "cache w url = None"
    and "httpGet ev (length (requests w)) url = Response StatusOK (Inr body)"
    and "unmarshal body = Inr v"
  shows "fetch unmarshal ev url w =
           (Inr v, w\<lparr>requests := requests w @ [url], clockReads := Suc (clockReads w),
                     cache := cache_put (cache w) url body (timeNow ev (clockReads w)) CacheTTL\<rparr>)"
  using assms(1) fetch_miss_ok [of ev w url body unmarshal v, OF assms(2) assms(3)]
  by (simp add: fetch_absent)

theorem tarif_failure_frame_witness:
  "fst (fetch (unmarshalNow tarif_down_env) tarif_down_env url_now stale_world) =
     Inl ''context deadline exceeded''
   \<and> currentData (updateCurrentTarif tarif_down_env stale_world) =
       \<lparr>CurrentTarif = 0, TarifLib = ''Erreur'', TodayColor = ''BLANC'',
        TomorrowColor = ''ROUGE'', LastUpdated = 0\<rparr>
   \<and> CurrentTarif (currentData (updateData TarifFirst tarif_down_env stale_world)) = 0
   \<and> TarifLib (currentData (updateData TarifFirst tarif_down_env stale_world)) = ''Erreur''"
proof -
  have "cache stale_world url_now = None"
    by (simp add: stale_world_def initial_world_def)
  moreover have "httpGet tarif_down_env (length (requests stale_world)) url_now =
      GetError ''context deadline exceeded''"
    by (simp add: tarif_down_env_def)
  ultimately have f: "fst (fetch (unmarshalNow tarif_down_env) tarif_down_env url_now stale_world) =
      Inl ''context deadline exceeded''"
    by (simp add: fetch_offline)
  from tarif_failure_frame [OF f] f show ?thesis
    by (simp add: stale_world_def initial_world_def)
qed

lemma updateColors_today_ok:
  assumes f1: "fetch (unmarshalTempo ev) ev url_today w = (Inr today, w1)"
  shows "TodayColor (currentData (updateColors ev w)) = codeToColor (CodeJour today)"
    and "u \<noteq> url_tomorrow \<Longrightarrow> cache (updateColors ev w) u = cache w1 u"
proof -
  let ?w2 = "w1\<lparr>currentData := (currentData w)\<lparr>TodayColor := codeToColor (CodeJour today)\<rparr>\<rparr>"
  obtain r2 w3 where f2: "fetch (unmarshalTempo ev) ev url_tomorrow ?w2 = (r2, w3)"
    by (cases "fetch (unmarshalTempo ev) ev url_tomorrow ?w2")
  have upd: "TodayColor (currentData (updateColors ev w)) = codeToColor (CodeJour today)
      \<and> cache (updateColors ev w) = cache w3"
  proof (cases r2)
    case (Inl err)
    with f2 updateColors_tomorrow_failed [OF f1, of err w3] show ?thesis by simp
  next
    case (Inr tomorrow)
    with f2 updateColors_both_ok [OF f1, of tomorrow w3] show ?thesis by simp
  qed
  then show "TodayColor (currentData (updateColors ev w)) = codeToColor (CodeJour today)"
    by simp
  assume u: "u \<noteq> url_tomorrow"
  from fetch_cache_other [OF u, of "unmarshalTempo ev" ev ?w2] f2
  have "cache w3 u = cache w1 u" by simp
  with upd show "cache (updateColors ev w) u = cache w1 u" by simp
qed

lemma updateColors_red:
  assumes absent: "cache w url_today = None"
    and net: "httpGet ev (length (requests w)) url_today = Response 200 (Inr body)"
    and dec: "unmarshalTempo ev body = Inr today"
  shows "TodayColor (currentData (updateColors ev w)) = codeToColor (CodeJour today)
       \<and> cache (updateColors ev w) url_today =
           Some \<lparr>data = body, expires = timeNow ev (clockReads w) + CacheTTL\<rparr>"
proof -
  from net have net': "httpGet ev (length (requests w)) url_today = Response StatusOK (Inr body)"
    by (simp add: StatusOK_def)
  note f1 = fetch_online [of w url_today ev body "unmarshalTempo ev" today, OF absent net' dec]
  from updateColors_today_ok [OF f1] url_distinct(1) show ?thesis
    by (simp add: cache_put_def)
qed

text \<open>
  Claim C9. When the cache has no entry for today's URL (an empty cache has none), the
  network answers the request for today's colour with status 200 and the body
  \<open>{"codeJour":3}\<close>, and that body decodes to a record with \<open>CodeJour = 3\<close>, then after
  the refresh \<open>TodayColor\<close> is \<open>ROUGE\<close> and the cache maps today's URL to exactly that
  body, expiring \<open>CacheTTL\<close> after the clock reading taken at the store. This holds for
  \<open>updateColors\<close> and for \<open>updateData\<close> under either order of its two updates.
\<close>

theorem refresh_today_red:
  assumes absent: "cache w url_today = None"
    and net: "\<forall>k. httpGet ev k url_today = Response 200 (Inr (body_code ''3''))"
    and dec: "unmarshalTempo ev (body_code ''3'') = Inr today"
    and code: "CodeJour today = 3"
  shows "TodayColor (currentData (updateColors ev w)) = ''ROUGE''
       \<and> cache (updateColors ev w) url_today =
           Some \<lparr>data = body_code ''3'', expires = timeNow ev (clockReads w) + CacheTTL\<rparr>
       \<and> TodayColor (currentData (updateData ColorsFirst ev w)) = ''ROUGE''
       \<and> cache (updateData ColorsFirst ev w) url_today =
           Some \<lparr>data = body_code ''3'', expires = timeNow ev (clockReads w) + CacheTTL\<rparr>
       \<and> TodayColor (currentData (updateData TarifFirst ev w)) = ''ROUGE''
       \<and> cache (updateData TarifFirst ev w) url_today =
           Some \<lparr>data = body_code ''3'',
                 expires = timeNow ev (clockReads (updateCurrentTarif ev w)) + CacheTTL\<rparr>"
proof -
  have rouge: "codeToColor (CodeJour today) = ''ROUGE''"
    by (simp add: code codeToColor_def)
  from net have n1: "httpGet ev (length (requests w)) url_today =
      Response 200 (Inr (body_code ''3''))" by simp
  note a = updateColors_red [OF absent n1 dec]
  let ?w = "updateCurrentTarif ev w"
  have absent': "cache ?w url_today = None"
    using absent url_distinct(2) by (simp add: updateCurrentTarif_cache_other)
  from net have n2: "httpGet ev (length (requests ?w)) url_today =
      Response 200 (Inr (body_code ''3''))" by simp
  note b = updateColors_red [OF absent' n2 dec]
  have c: "TodayColor (currentData (updateData ColorsFirst ev w)) = ''ROUGE''"
    using a rouge by (simp add: updateData_def updateCurrentTarif_frame)
  have d: "cache (updateData ColorsFirst ev w) url_today =
      Some \<lparr>data = body_code ''3'', expires = timeNow ev (clockReads w) + CacheTTL\<rparr>"
    using a url_distinct(2) by (simp add: updateData_def updateCurrentTarif_cache_other)
  from a b c d rouge show ?thesis by (simp add: updateData_def)
qed

theorem refresh_today_red_witness:
  "cache initial_world = Map.empty
   \<and> httpGet sample_env 7 url_today = Response 200 (Inr (body_code ''3''))
   \<and> unmarshalTempo sample_env (body_code ''3'') = Inr \<lparr>DateJour = [], CodeJour = 3, Periode = []\<rparr>
   \<and> TodayColor (currentData (updateColors sample_env initial_world)) = ''ROUGE''
   \<and> cache (updateColors sample_env initial_world) url_today =
       Some \<lparr>data = body_code ''3'', expires = 1800000000000\<rparr>
   \<and> TodayColor (currentData (updateData TarifFirst sample_env initial_world)) = ''ROUGE''"
proof -
  have absent: "cache initial_world url_today = None"
    by (simp add: initial_world_def)
  have net: "\<forall>k. httpGet sample_env k url_today = Response 200 (Inr (body_code ''3''))"
    by (simp add: sample_env_def)
  have dec: "unmarshalTempo sample_env (body_code ''3'') =
      Inr \<lparr>DateJour = [], CodeJour = 3, Periode = []\<rparr>"
    by (simp add: sample_env_def sample_unmarshalTempo_def body_code_def)
  have code: "CodeJour \<lparr>DateJour = [], CodeJour = 3, Periode = []\<rparr> = 3"
    by simp
  have t: "timeNow sample_env (clockReads initial_world) + CacheTTL = 1800000000000"
    by (simp add: sample_env_def initial_world_def CacheTTL_def)
  have e: "cache initial_world = Map.empty"
    by (simp add: initial_world_def)
  from refresh_today_red [OF absent net dec code] net dec e show ?thesis
    by (simp add: t)
qed

text \<open>
  Claim C1 as stated fails: when the fetch of today's colour fails, \<open>updateColors\<close>
  returns at once. On a network where only today's request times out and tomorrow's
  would be answered with blue, the refresh requests today's URL and the tariff's, never
  tomorrow's, and \<open>TomorrowColor\<close> keeps the old value \<open>ROUGE\<close>.
\<close>

theorem today_failure_skips_tomorrow:
  "fst (fetch (unmarshalTempo today_down_env) today_down_env url_today stale_world) =
     Inl ''context deadline exceeded''
   \<and> httpGet today_down_env 1 url_tomorrow = Response 200 (Inr (body_code ''1''))
   \<and> unmarshalTempo today_down_env (body_code ''1'') =
       Inr \<lparr>DateJour = [], CodeJour = 1, Periode = []\<rparr>
   \<and> requests (updateColors today_down_env stale_world) = [url_today]
   \<and> TodayColor (currentData (updateColors today_down_env stale_world)) = ''ERREUR''
   \<and> TomorrowColor (currentData (updateColors today_down_env stale_world)) = ''ROUGE''
   \<and> requests (updateData ColorsFirst today_down_env stale_world) = [url_today, url_now]
   \<and> TomorrowColor (currentData (updateData ColorsFirst today_down_env stale_world)) = ''ROUGE''
   \<and> requests (updateData TarifFirst today_down_env stale_world) = [url_now, url_today]
   \<and> TomorrowColor (currentData (updateData TarifFirst today_down_env stale_world)) = ''ROUGE''"
proof -
  let ?ev = today_down_env
  have c: "cache stale_world = Map.empty" "requests stale_world = []"
    by (simp_all add: stale_world_def initial_world_def)
  have g0: "httpGet ?ev (length (requests stale_world)) url_today =
      GetError ''context deadline exceeded''"
    by (simp add: today_down_env_def)
  have f0: "fetch (unmarshalTempo ?ev) ?ev url_today stale_world =
      (Inl ''context deadline exceeded'', stale_world\<lparr>requests := [url_today]\<rparr>)"
    using fetch_offline [of stale_world url_today ?ev _ "unmarshalTempo ?ev", OF _ g0] c
    by simp
  have u0: "updateColors ?ev stale_world =
      stale_world\<lparr>requests := [url_today],
        currentData := (currentData stale_world)\<lparr>TodayColor := ''ERREUR''\<rparr>\<rparr>"
    using updateColors_today_failed [OF f0] by simp
  have n1: "httpGet ?ev 1 url_tomorrow = Response 200 (Inr (body_code ''1''))"
    using url_distinct by (simp add: today_down_env_def sample_env_def)
  have d1: "unmarshalTempo ?ev (body_code ''1'') =
      Inr \<lparr>DateJour = [], CodeJour = 1, Periode = []\<rparr>"
    by (simp add: today_down_env_def sample_env_def sample_unmarshalTempo_def)
  have dn: "unmarshalNow ?ev body_tarif =
      Inr \<lparr>ApplicableIn = 0, CodeCouleur = 0, CodeHoraire = 0, TarifKwh = 0, LibTarif = ''HP''\<rparr>"
    by (simp add: today_down_env_def sample_env_def sample_unmarshalNow_def)
  have gn: "httpGet ?ev k url_now = Response StatusOK (Inr body_tarif)" for k
    using url_distinct by (simp add: today_down_env_def sample_env_def StatusOK_def)
  let ?w1 = "updateColors ?ev stale_world"
  have "cache ?w1 url_now = None" by (simp add: u0 c)
  note fx = fetch_online [of ?w1 url_now ?ev body_tarif "unmarshalNow ?ev", OF this gn dn]
  have r1: "requests (updateData ColorsFirst ?ev stale_world) = [url_today, url_now]"
    by (simp add: updateData_def updateCurrentTarif_ok [OF fx]) (simp add: u0)
  have t1: "TomorrowColor (currentData (updateData ColorsFirst ?ev stale_world)) = ''ROUGE''"
    by (simp add: updateData_def updateCurrentTarif_frame u0) (simp add: stale_world_def)
  have "cache stale_world url_now = None" by (simp add: c)
  from fetch_online [of stale_world url_now ?ev body_tarif "unmarshalNow ?ev", OF this gn dn]
  have fn2: "fetch (unmarshalNow ?ev) ?ev url_now stale_world =
      (Inr \<lparr>ApplicableIn = 0, CodeCouleur = 0, CodeHoraire = 0, TarifKwh = 0, LibTarif = ''HP''\<rparr>,
       stale_world\<lparr>requests := [url_now], clockReads := Suc (clockReads stale_world),
         cache := cache_put Map.empty url_now body_tarif
           (timeNow ?ev (clockReads stale_world)) CacheTTL\<rparr>)"
    by (simp add: c)
  let ?w2 = "updateCurrentTarif ?ev stale_world"
  note w2 = updateCurrentTarif_ok [OF fn2]
  have c2: "cache ?w2 url_today = None"
    using url_distinct by (simp add: updateCurrentTarif_cache_other c)
  have g2: "httpGet ?ev (length (requests ?w2)) url_today =
      GetError ''context deadline exceeded''"
    by (simp add: today_down_env_def)
  note f2 = fetch_offline [of ?w2 url_today ?ev _ "unmarshalTempo ?ev", OF c2 g2]
  note u2 = updateColors_today_failed [OF f2]
  have r2: "requests (updateData TarifFirst ?ev stale_world) = [url_now, url_today]"
    by (simp add: updateData_def u2) (simp add: w2)
  have t2: "TomorrowColor (currentData (updateData TarifFirst ?ev stale_world)) = ''ROUGE''"
    by (simp add: updateData_def u2 updateCurrentTarif_frame) (simp add: stale_world_def)
  have ru: "requests ?w1 = [url_today]"
    by (simp add: u0)
  have tu: "TodayColor (currentData ?w1) = ''ERREUR''"
    by (simp add: u0)
  have mu: "TomorrowColor (currentData ?w1) = ''ROUGE''"
    by (simp add: u0) (simp add: stale_world_def)
  from f0 n1 d1 ru tu mu r1 t1 r2 t2 show ?thesis
    by simp
qed

text \<open>
  Claim C1, amended. \<open>updateColors\<close> never writes the tariff fields and
  \<open>updateCurrentTarif\<close> never writes the colours, and \<open>updateData\<close> runs both, so a
  failure on one side leaves the other side's fields as that side wrote them. A failed
  tariff fetch sets only \<open>CurrentTarif\<close> and \<open>TarifLib\<close>, to 0 and \<open>Erreur\<close>. A failed
  fetch of tomorrow's colour sets only \<open>TomorrowColor\<close>, to \<open>ERREUR\<close>, and keeps the
  \<open>TodayColor\<close> just written. A failed fetch of today's colour sets \<open>TodayColor\<close> to
  \<open>ERREUR\<close> and ends the colour update: the state is the one the failed fetch left,
  with \<open>TomorrowColor\<close> as before and no fetch of tomorrow's colour.
\<close>

theorem refresh_failures_isolated:
  "CurrentTarif (currentData (updateColors ev w)) = CurrentTarif (currentData w)
   \<and> TarifLib (currentData (updateColors ev w)) = TarifLib (currentData w)
   \<and> TodayColor (currentData (updateCurrentTarif ev w)) = TodayColor (currentData w)
   \<and> TomorrowColor (currentData (updateCurrentTarif ev w)) = TomorrowColor (currentData w)
   \<and> TodayColor (currentData (updateData ColorsFirst ev w)) =
       TodayColor (currentData (updateColors ev w))
   \<and> TomorrowColor (currentData (updateData ColorsFirst ev w)) =
       TomorrowColor (currentData (updateColors ev w))
   \<and> CurrentTarif (currentData (updateData TarifFirst ev w)) =
       CurrentTarif (currentData (updateCurrentTarif ev w))
   \<and> TarifLib (currentData (updateData TarifFirst ev w)) =
       TarifLib (currentData (updateCurrentTarif ev w))
   \<and> (\<forall>err w1. fetch (unmarshalNow ev) ev url_now w = (Inl err, w1) \<longrightarrow>
         updateCurrentTarif ev w =
           w1\<lparr>currentData := (currentData w)\<lparr>CurrentTarif := 0, TarifLib := ''Erreur''\<rparr>\<rparr>)
   \<and> (\<forall>today w1 err w3.
         fetch (unmarshalTempo ev) ev url_today w = (Inr today, w1)
         \<and> fetch (unmarshalTempo ev) ev url_tomorrow
             (w1\<lparr>currentData := (currentData w)\<lparr>TodayColor := codeToColor (CodeJour today)\<rparr>\<rparr>) =
           (Inl err, w3) \<longrightarrow>
         updateColors ev w =
           w3\<lparr>currentData := (currentData w)\<lparr>TodayColor := codeToColor (CodeJour today),
                                              TomorrowColor := ''ERREUR''\<rparr>\<rparr>)
   \<and> (\<forall>err w1. fetch (unmarshalTempo ev) ev url_today w = (Inl err, w1) \<longrightarrow>
         updateColors ev w = w1\<lparr>currentData := (currentData w)\<lparr>TodayColor := ''ERREUR''\<rparr>\<rparr>)"
proof -
  have frames:
    "TodayColor (currentData (updateData ColorsFirst ev w)) =
       TodayColor (currentData (updateColors ev w))"
    "TomorrowColor (currentData (updateData ColorsFirst ev w)) =
       TomorrowColor (currentData (updateColors ev w))"
    "CurrentTarif (currentData (updateData TarifFirst ev w)) =
       CurrentTarif (currentData (updateCurrentTarif ev w))"
    "TarifLib (currentData (updateData TarifFirst ev w)) =
       TarifLib (currentData (updateCurrentTarif ev w))"
    by (simp_all add: updateData_def updateColors_frame updateCurrentTarif_frame)
  have tarif: "\<forall>err w1. fetch (unmarshalNow ev) ev url_now w = (Inl err, w1) \<longrightarrow>
      updateCurrentTarif ev w =
        w1\<lparr>currentData := (currentData w)\<lparr>CurrentTarif := 0, TarifLib := ''Erreur''\<rparr>\<rparr>"
    using updateCurrentTarif_failed by blast
  have tomorrow: "\<forall>today w1 err w3.
      fetch (unmarshalTempo ev) ev url_today w = (Inr today, w1)
      \<and> fetch (unmarshalTempo ev) ev url_tomorrow
          (w1\<lparr>currentData := (currentData w)\<lparr>TodayColor := codeToColor (CodeJour today)\<rparr>\<rparr>) =
        (Inl err, w3) \<longrightarrow>
      updateColors ev w =
        w3\<lparr>currentData := (currentData w)\<lparr>TodayColor := codeToColor (CodeJour today),
                                           TomorrowColor := ''ERREUR''\<rparr>\<rparr>"
    using updateColors_tomorrow_failed by blast
  have today: "\<forall>err w1. fetch (unmarshalTempo ev) ev url_today w = (Inl err, w1) \<longrightarrow>
      updateColors ev w = w1\<lparr>currentData := (currentData w)\<lparr>TodayColor := ''ERREUR''\<rparr>\<rparr>"
    using updateColors_today_failed by blast
  from frames tarif tomorrow today show ?thesis
    by (simp only: updateColors_frame updateCurrentTarif_frame simp_thms)
qed

theorem refresh_failures_isolated_witness:
  "updateColors today_down_env stale_world =
     stale_world\<lparr>requests := [url_today],
       currentData := (currentData stale_world)\<lparr>TodayColor := ''ERREUR''\<rparr>\<rparr>
   \<and> TodayColor (currentData (updateColors tomorrow_down_env stale_world)) = ''ROUGE''
   \<and> TomorrowColor (currentData (updateColors tomorrow_down_env stale_world)) = ''ERREUR''
   \<and> requests (updateColors tomorrow_down_env stale_world) = [url_today, url_tomorrow]
   \<and> currentData (updateCurrentTarif tarif_down_env stale_world) =
       (currentData stale_world)\<lparr>CurrentTarif := 0, TarifLib := ''Erreur''\<rparr>"
proof -
  have c: "cache stale_world = Map.empty" "requests stale_world = []"
    by (simp_all add: stale_world_def initial_world_def)
  \<comment> \<open>today's fetch fails\<close>
  have g0: "httpGet today_down_env (length (requests stale_world)) url_today =
      GetError ''context deadline exceeded''"
    by (simp add: today_down_env_def)
  have f0: "fetch (unmarshalTempo today_down_env) today_down_env url_today stale_world =
      (Inl ''context deadline exceeded'', stale_world\<lparr>requests := [url_today]\<rparr>)"
    using fetch_offline [of stale_world url_today today_down_env _
        "unmarshalTempo today_down_env", OF _ g0] c
    by simp
  from refresh_failures_isolated [of today_down_env stale_world] f0
  have a: "updateColors today_down_env stale_world =
      stale_world\<lparr>requests := [url_today],
        currentData := (currentData stale_world)\<lparr>TodayColor := ''ERREUR''\<rparr>\<rparr>"
    by simp
  \<comment> \<open>today's fetch succeeds, tomorrow's fails\<close>
  let ?ev = tomorrow_down_env
  let ?today = "\<lparr>DateJour = [], CodeJour = 3, Periode = []\<rparr>"
  have g1: "httpGet ?ev (length (requests stale_world)) url_today =
      Response StatusOK (Inr (body_code ''3''))"
    using url_distinct by (simp add: tomorrow_down_env_def sample_env_def StatusOK_def)
  have d1: "unmarshalTempo ?ev (body_code ''3'') = Inr ?today"
    by (simp add: tomorrow_down_env_def sample_env_def sample_unmarshalTempo_def body_code_def)
  have "cache stale_world url_today = None" by (simp add: c)
  note f1 = fetch_online [of stale_world url_today ?ev "body_code ''3''" "unmarshalTempo ?ev"
      ?today, OF this g1 d1]
  let ?w1 = "stale_world\<lparr>requests := requests stale_world @ [url_today],
      clockReads := Suc (clockReads stale_world),
      cache := cache_put (cache stale_world) url_today (body_code ''3'')
        (timeNow ?ev (clockReads stale_world)) CacheTTL\<rparr>"
  let ?w2 = "?w1\<lparr>currentData := (currentData stale_world)
      \<lparr>TodayColor := codeToColor (CodeJour ?today)\<rparr>\<rparr>"
  have c2: "cache ?w2 url_tomorrow = None"
    using url_distinct by (simp add: cache_put_def c)
  have g2: "httpGet ?ev (length (requests ?w2)) url_tomorrow =
      GetError ''context deadline exceeded''"
    by (simp add: tomorrow_down_env_def)
  note f2 = fetch_offline [of ?w2 url_tomorrow ?ev _ "unmarshalTempo ?ev", OF c2 g2]
  from refresh_failures_isolated [of ?ev stale_world] f1 f2
  have b: "updateColors ?ev stale_world =
      (?w2\<lparr>requests := requests ?w2 @ [url_tomorrow]\<rparr>)
        \<lparr>currentData := (currentData stale_world)
           \<lparr>TodayColor := codeToColor (CodeJour ?today), TomorrowColor := ''ERREUR''\<rparr>\<rparr>"
    by blast
  have b1: "TodayColor (currentData (updateColors ?ev stale_world)) = ''ROUGE''"
    by (simp add: b codeToColor_def)
  have b2: "TomorrowColor (currentData (updateColors ?ev stale_world)) = ''ERREUR''"
    by (simp add: b)
  have b3: "requests (updateColors ?ev stale_world) = [url_today, url_tomorrow]"
    by (simp add: b c)
  \<comment> \<open>the tariff fetch fails\<close>
  have gt: "httpGet tarif_down_env (length (requests stale_world)) url_now =
      GetError ''context deadline exceeded''"
    by (simp add: tarif_down_env_def)
  have "cache stale_world url_now = None" by (simp add: c)
  note ft = fetch_offline [of stale_world url_now tarif_down_env _
      "unmarshalNow tarif_down_env", OF this gt]
  from refresh_failures_isolated [of tarif_down_env stale_world] ft
  have t: "currentData (updateCurrentTarif tarif_down_env stale_world) =
      (currentData stale_world)\<lparr>CurrentTarif := 0, TarifLib := ''Erreur''\<rparr>"
    by simp
  from a b1 b2 b3 t show ?thesis by simp
qed

section \<open>Properties of the icon\<close>

lemma init_nonempty:
  assumes "init pf = Inr ic"
  shows "icnBlanc ic \<noteq> []" and "icnRouge ic \<noteq> []" and "icnBleu ic \<noteq> []"
  using assms
  by (auto simp: init_def mustAsset_def Let_def split: if_splits option.splits sum.splits)

lemma color_keys:
  "ToLower (TrimSpace ''BLEU'') = ''bleu''"
  "ToLower (TrimSpace ''BLANC'') = ''blanc''"
  "ToLower (TrimSpace ''ROUGE'') = ''rouge''"
  "ToLower (TrimSpace ''INCONNU'') = ''inconnu''"
  "ToLower (TrimSpace ''ERREUR'') = ''erreur''"
  by (simp_all add: ToLower_def TrimSpace_def isSpace_def to_lower_char_def)

lemma loadIcon_colors:
  "loadIcon ic pf ''BLEU'' = icnBleu ic"
  "loadIcon ic pf ''BLANC'' = icnBlanc ic"
  "loadIcon ic pf ''ROUGE'' = icnRouge ic"
  "loadIcon ic pf ''INCONNU'' = icnBlanc ic"
  "loadIcon ic pf ''ERREUR'' = icnBlanc ic"
  by (simp_all add: loadIcon_def color_keys)

lemma codeToColor_range:
  "codeToColor code \<in> {''BLEU'', ''BLANC'', ''ROUGE'', ''INCONNU''}"
  by (simp add: codeToColor_def)

lemma updateColors_TodayColor:
  "TodayColor (currentData (updateColors ev w)) \<in>
     {''BLEU'', ''BLANC'', ''ROUGE'', ''INCONNU'', ''ERREUR''}"
proof (cases rule: updateColors_cases [of ev w])
  case (today_failed err w1)
  then show ?thesis by simp
next
  case (tomorrow_failed today w1 err w3)
  with codeToColor_range [of "CodeJour today"] show ?thesis by auto
next
  case (both_ok today w1 tomorrow w3)
  with codeToColor_range [of "CodeJour today"] show ?thesis by auto
qed

text \<open>
  Claim C5. Once \<open>init\<close> has loaded the three icons, the icon that
  \<open>updateIconBasedOnColor\<close> sets is a function of \<open>TodayColor\<close> alone on the five
  colour values: \<open>BLEU\<close> gives the blue icon, \<open>BLANC\<close> the white one, \<open>ROUGE\<close> the red
  one, and \<open>INCONNU\<close> and \<open>ERREUR\<close> the white one. No file is read for them (the
  files at the time of the call, \<open>pf'\<close>, play no part), the result is never empty,
  and these five values are the only ones a refresh gives \<open>TodayColor\<close>.
\<close>

theorem icon_of_color:
  assumes "init pf = Inr ic"
  shows "updateIconBasedOnColor ic pf' (w\<lparr>currentData := (currentData w)\<lparr>TodayColor := ''BLEU''\<rparr>\<rparr>) = icnBleu ic
       \<and> updateIconBasedOnColor ic pf' (w\<lparr>currentData := (currentData w)\<lparr>TodayColor := ''BLANC''\<rparr>\<rparr>) = icnBlanc ic
       \<and> updateIconBasedOnColor ic pf' (w\<lparr>currentData := (currentData w)\<lparr>TodayColor := ''ROUGE''\<rparr>\<rparr>) = icnRouge ic
       \<and> updateIconBasedOnColor ic pf' (w\<lparr>currentData := (currentData w)\<lparr>TodayColor := ''INCONNU''\<rparr>\<rparr>) = icnBlanc ic
       \<and> updateIconBasedOnColor ic pf' (w\<lparr>currentData := (currentData w)\<lparr>TodayColor := ''ERREUR''\<rparr>\<rparr>) = icnBlanc ic
       \<and> icnBleu ic \<noteq> [] \<and> icnBlanc ic \<noteq> [] \<and> icnRouge ic \<noteq> []
       \<and> TodayColor (currentData (updateColors ev w)) \<in>
           {''BLEU'', ''BLANC'', ''ROUGE'', ''INCONNU'', ''ERREUR''}"
  using init_nonempty [OF assms] updateColors_TodayColor [of ev w]
  by (simp add: updateIconBasedOnColor_def loadIcon_colors)

theorem icon_of_color_witness:
  "init sample_platform = Inr \<lparr>icnBlanc = ''W'', icnRouge = ''R'', icnBleu = ''B''\<rparr>
   \<and> updateIconBasedOnColor \<lparr>icnBlanc = ''W'', icnRouge = ''R'', icnBleu = ''B''\<rparr> sample_platform
       (updateColors sample_env initial_world) = ''R''
   \<and> updateIconBasedOnColor \<lparr>icnBlanc = ''W'', icnRouge = ''R'', icnBleu = ''B''\<rparr> sample_platform
       (updateColors offline_env initial_world) = ''W''"
proof -
  let ?ic = "\<lparr>icnBlanc = ''W'', icnRouge = ''R'', icnBleu = ''B''\<rparr>"
  have i: "init sample_platform = Inr ?ic"
    by (simp add: init_def mustAsset_def sample_platform_def)
  have c: "cache initial_world url_today = None"
    by (simp add: initial_world_def)
  \<comment> \<open>a refresh that finds today red\<close>
  have n: "httpGet sample_env (length (requests initial_world)) url_today =
      Response 200 (Inr (body_code ''3''))"
    by (simp add: sample_env_def)
  have d: "unmarshalTempo sample_env (body_code ''3'') =
      Inr \<lparr>DateJour = [], CodeJour = 3, Periode = []\<rparr>"
    by (simp add: sample_env_def sample_unmarshalTempo_def body_code_def)
  from updateColors_red [OF c n d]
  have red: "TodayColor (currentData (updateColors sample_env initial_world)) = ''ROUGE''"
    by (simp add: codeToColor_def)
  \<comment> \<open>a refresh without network\<close>
  have g: "httpGet offline_env (length (requests initial_world)) url_today =
      GetError ''context deadline exceeded''"
    by (simp add: offline_env_def)
  from updateColors_today_failed
    [OF fetch_offline [of initial_world url_today offline_env _ "unmarshalTempo offline_env", OF c g]]
  have err: "TodayColor (currentData (updateColors offline_env initial_world)) = ''ERREUR''"
    by simp
  let ?w1 = "updateColors sample_env initial_world"
  let ?w2 = "updateColors offline_env initial_world"
  have r1: "?w1\<lparr>currentData := (currentData ?w1)\<lparr>TodayColor := ''ROUGE''\<rparr>\<rparr> = ?w1"
    using red by (metis Data.surjective Data.update_convs(3) world.surjective world.update_convs(1))
  have r2: "?w2\<lparr>currentData := (currentData ?w2)\<lparr>TodayColor := ''ERREUR''\<rparr>\<rparr> = ?w2"
    using err by (metis Data.surjective Data.update_convs(3) world.surjective world.update_convs(1))
  from icon_of_color [OF i, of sample_platform ?w1] r1
  have a: "updateIconBasedOnColor ?ic sample_platform ?w1 = ''R''" by simp
  from icon_of_color [OF i, of sample_platform ?w2] r2
  have b: "updateIconBasedOnColor ?ic sample_platform ?w2 = ''W''" by simp
  from i a b show ?thesis by simp
qed

section \<open>Properties of the goroutines\<close>

lemma run_inv_start: "run_inv ev w (start w)"
  by (simp add: run_inv_def start_def holds_def ran_def)

lemma run_inv_step:
  assumes "run_inv ev w s" and "step ev s s'"
  shows "run_inv ev w s'"
  using assms(2,1)
proof cases
  case lock_colors
  with assms(1) show ?thesis
    by (simp add: run_inv_def holds_def ran_def split: if_splits)
next
  case body_colors
  with assms(1) show ?thesis
    by (simp add: run_inv_def holds_def ran_def updateData_def split: if_splits)
next
  case unlock_colors
  with assms(1) show ?thesis
    by (simp add: run_inv_def holds_def ran_def split: if_splits)
next
  case done_colors
  with assms(1) show ?thesis
    by (simp add: run_inv_def holds_def ran_def split: if_splits)
next
  case lock_tarif
  with assms(1) show ?thesis
    by (simp add: run_inv_def holds_def ran_def split: if_splits)
next
  case body_tarif
  with assms(1) show ?thesis
    by (simp add: run_inv_def holds_def ran_def updateData_def split: if_splits)
next
  case unlock_tarif
  with assms(1) show ?thesis
    by (simp add: run_inv_def holds_def ran_def split: if_splits)
next
  case done_tarif
  with assms(1) show ?thesis
    by (simp add: run_inv_def holds_def ran_def split: if_splits)
next
  case wait_returns
  with assms(1) show ?thesis
    by (simp add: run_inv_def holds_def ran_def split: if_splits)
qed

lemma run_inv_reachable:
  assumes "(step ev)\<^sup>*\<^sup>* (start w) s"
  shows "run_inv ev w s"
  using assms
proof (induction rule: rtranclp_induct)
  case base
  show ?case by (rule run_inv_start)
next
  case (step s s')
  then show ?case by (blast intro: run_inv_step)
qed

lemma step_decreases:
  assumes "step ev s s'"
  shows "remaining s' < remaining s"
  using assms by cases (simp_all add: remaining_def)

lemma run_progress:
  assumes inv: "run_inv ev w s" and nr: "\<not> returned s"
  shows "\<exists>s'. step ev s s'"
proof (cases "colors_pc s")
  case InBody
  then show ?thesis by (blast intro: step.body_colors)
next
  case AtUnlock
  then show ?thesis by (blast intro: step.unlock_colors)
next
  case AtDone
  then show ?thesis by (blast intro: step.done_colors)
next
  case AtLock
  show ?thesis
  proof (cases "tarif_pc s")
    case InBody
    then show ?thesis by (blast intro: step.body_tarif)
  next
    case AtUnlock
    then show ?thesis by (blast intro: step.unlock_tarif)
  next
    case AtDone
    then show ?thesis by (blast intro: step.done_tarif)
  next
    case AtLock
    with \<open>colors_pc s = AtLock\<close> inv have "dataMaj s = None"
      by (simp add: run_inv_def holds_def)
    with \<open>colors_pc s = AtLock\<close> show ?thesis by (blast intro: step.lock_colors)
  next
    case Finished
    with \<open>colors_pc s = AtLock\<close> inv have "dataMaj s = None"
      by (simp add: run_inv_def holds_def)
    with \<open>colors_pc s = AtLock\<close> show ?thesis by (blast intro: step.lock_colors)
  qed
next
  case Finished
  show ?thesis
  proof (cases "tarif_pc s")
    case InBody
    then show ?thesis by (blast intro: step.body_tarif)
  next
    case AtUnlock
    then show ?thesis by (blast intro: step.unlock_tarif)
  next
    case AtDone
    then show ?thesis by (blast intro: step.done_tarif)
  next
    case AtLock
    with \<open>colors_pc s = Finished\<close> inv have "dataMaj s = None"
      by (simp add: run_inv_def holds_def)
    with AtLock show ?thesis by (blast intro: step.lock_tarif)
  next
    case Finished
    with \<open>colors_pc s = Finished\<close> inv have "wg s = 0"
      by (simp add: run_inv_def)
    with nr show ?thesis by (blast intro: step.wait_returns)
  qed
qed

text \<open>
  Claim C8. In every state that a call of \<open>updateData\<close> can reach, whatever the fetches
  return, either the call has returned or some step can be taken (no deadlock); every
  step lowers the number of steps still to take, which is 9 at the start, so no run is
  longer than that; and when the call has returned, both goroutines have finished,
  the mutex is free, the counter is 0 and the world is the one that running the two
  updates one after the other, in one of the two orders, gives.
\<close>

theorem updateData_returns:
  assumes "(step ev)\<^sup>*\<^sup>* (start w) s"
  shows "(returned s \<or> (\<exists>s'. step ev s s'))
       \<and> (\<forall>s'. step ev s s' \<longrightarrow> remaining s' < remaining s)
       \<and> remaining s \<le> remaining (start w)
       \<and> remaining (start w) = 9
       \<and> (returned s \<longrightarrow>
            colors_pc s = Finished \<and> tarif_pc s = Finished \<and> dataMaj s = None \<and> wg s = 0
            \<and> (wld s = updateData ColorsFirst ev w \<or> wld s = updateData TarifFirst ev w))"
proof -
  note inv = run_inv_reachable [OF assms]
  have a: "returned s \<or> (\<exists>s'. step ev s s')"
    using run_progress [OF inv] by blast
  have b: "\<forall>s'. step ev s s' \<longrightarrow> remaining s' < remaining s"
    using step_decreases by blast
  have c: "remaining s \<le> remaining (start w)"
    using assms
  proof (induction rule: rtranclp_induct)
    case base
    show ?case by simp
  next
    case (step s s')
    with step_decreases [of ev s s'] show ?case by simp
  qed
  have d: "remaining (start w) = 9"
    by (simp add: remaining_def start_def)
  have e: "returned s \<longrightarrow>
      colors_pc s = Finished \<and> tarif_pc s = Finished \<and> dataMaj s = None \<and> wg s = 0
      \<and> (wld s = updateData ColorsFirst ev w \<or> wld s = updateData TarifFirst ev w)"
    using inv by (simp add: run_inv_def holds_def ran_def)
  from a b c d e show ?thesis by blast
qed

text \<open>A run in which the colour update takes the mutex first.\<close>

lemma run_colors_first:
  "(step ev)\<^sup>*\<^sup>* (start w)
     \<lparr>colors_pc = Finished, tarif_pc = Finished, dataMaj = None, wg = 0, returned = True,
      wld = updateData ColorsFirst ev w\<rparr>"
proof -
  let ?w1 = "updateColors ev w"
  let ?w2 = "updateCurrentTarif ev ?w1"
  let ?s0 = "\<lparr>colors_pc = AtLock, tarif_pc = AtLock, dataMaj = None, wg = 2, returned = False, wld = w\<rparr>"
  let ?s1 = "\<lparr>colors_pc = InBody, tarif_pc = AtLock, dataMaj = Some Colors, wg = 2, returned = False, wld = w\<rparr>"
  let ?s2 = "\<lparr>colors_pc = AtUnlock, tarif_pc = AtLock, dataMaj = Some Colors, wg = 2, returned = False, wld = ?w1\<rparr>"
  let ?s3 = "\<lparr>colors_pc = AtDone, tarif_pc = AtLock, dataMaj = None, wg = 2, returned = False, wld = ?w1\<rparr>"
  let ?s4 = "\<lparr>colors_pc = Finished, tarif_pc = AtLock, dataMaj = None, wg = 1, returned = False, wld = ?w1\<rparr>"
  let ?s5 = "\<lparr>colors_pc = Finished, tarif_pc = InBody, dataMaj = Some Tarif, wg = 1, returned = False, wld = ?w1\<rparr>"
  let ?s6 = "\<lparr>colors_pc = Finished, tarif_pc = AtUnlock, dataMaj = Some Tarif, wg = 1, returned = False, wld = ?w2\<rparr>"
  let ?s7 = "\<lparr>colors_pc = Finished, tarif_pc = AtDone, dataMaj = None, wg = 1, returned = False, wld = ?w2\<rparr>"
  let ?s8 = "\<lparr>colors_pc = Finished, tarif_pc = Finished, dataMaj = None, wg = 0, returned = False, wld = ?w2\<rparr>"
  let ?s9 = "\<lparr>colors_pc = Finished, tarif_pc = Finished, dataMaj = None, wg = 0, returned = True, wld = ?w2\<rparr>"
  have "step ev ?s0 ?s1" using step.lock_colors [of ?s0 ev] by simp
  moreover have "step ev ?s1 ?s2" using step.body_colors [of ?s1 ev] by simp
  moreover have "step ev ?s2 ?s3" using step.unlock_colors [of ?s2 ev] by simp
  moreover have "step ev ?s3 ?s4" using step.done_colors [of ?s3 ev] by simp
  moreover have "step ev ?s4 ?s5" using step.lock_tarif [of ?s4 ev] by simp
  moreover have "step ev ?s5 ?s6" using step.body_tarif [of ?s5 ev] by simp
  moreover have "step ev ?s6 ?s7" using step.unlock_tarif [of ?s6 ev] by simp
  moreover have "step ev ?s7 ?s8" using step.done_tarif [of ?s7 ev] by simp
  moreover have "step ev ?s8 ?s9" using step.wait_returns [of ?s8 ev] by simp
  ultimately have "(step ev)\<^sup>*\<^sup>* ?s0 ?s9"
    by (meson rtranclp.rtrancl_into_rtrancl rtranclp.rtrancl_refl)
  then show ?thesis by (simp add: start_def updateData_def)
qed

theorem updateData_returns_witness:
  "(step offline_env)\<^sup>*\<^sup>* (start initial_world) (start initial_world)
   \<and> \<not> returned (start initial_world)
   \<and> (\<exists>s'. step offline_env (start initial_world) s')
   \<and> (step offline_env)\<^sup>*\<^sup>* (start initial_world)
        \<lparr>colors_pc = Finished, tarif_pc = Finished, dataMaj = None, wg = 0, returned = True,
         wld = updateData ColorsFirst offline_env initial_world\<rparr>
   \<and> remaining \<lparr>colors_pc = Finished, tarif_pc = Finished, dataMaj = None, wg = 0,
        returned = True, wld = updateData ColorsFirst offline_env initial_world\<rparr> \<le> 9"
proof -
  let ?s0 = "start initial_world"
  let ?sF = "\<lparr>colors_pc = Finished, tarif_pc = Finished, dataMaj = None, wg = 0,
      returned = True, wld = updateData ColorsFirst offline_env initial_world\<rparr>"
  have r0: "(step offline_env)\<^sup>*\<^sup>* ?s0 ?s0" by simp
  have n0: "\<not> returned ?s0" by (simp add: start_def)
  from updateData_returns [OF r0] n0 have p0: "\<exists>s'. step offline_env ?s0 s'" by blast
  have rF: "(step offline_env)\<^sup>*\<^sup>* ?s0 ?sF" by (rule run_colors_first)
  from updateData_returns [OF rF] have "remaining ?sF \<le> 9" by simp
  with r0 n0 p0 rF show ?thesis by blast
qed

section \<open>Properties of the midnight scheduler\<close>

lemma daysBefore_values:
  "daysBefore 0 = 0" "daysBefore 1 = 31" "daysBefore 2 = 59" "daysBefore 3 = 90"
  "daysBefore 4 = 120" "daysBefore 5 = 151" "daysBefore 6 = 181" "daysBefore 7 = 212"
  "daysBefore 8 = 243" "daysBefore 9 = 273" "daysBefore 10 = 304" "daysBefore 11 = 334"
  "daysBefore 12 = 365"
  by (simp_all add: daysBefore_def)

lemma month_part:
  fixes day :: int
  assumes lo: "0 \<le> day" and hi: "day \<le> 364"
  defines "month \<equiv> day div 31"
  defines "m \<equiv> (if day \<ge> daysBefore (month + 1) then month + 2 else month + 1)"
  defines "d \<equiv> (if day \<ge> daysBefore (month + 1) then day - daysBefore (month + 1) + 1
                  else day - daysBefore month + 1)"
  shows "1 \<le> m \<and> m \<le> 12 \<and> daysBefore (m - 1) + (d - 1) = day \<and> (3 \<le> m \<longleftrightarrow> 59 \<le> day)"
proof -
  have b: "31 * month \<le> day" "day < 31 * month + 31"
    unfolding month_def by simp_all
  with lo hi have "0 \<le> month" "month \<le> 11" by simp_all
  then have "month = 0 \<or> month = 1 \<or> month = 2 \<or> month = 3 \<or> month = 4
    \<or> month = 5 \<or> month = 6 \<or> month = 7 \<or> month = 8 \<or> month = 9 \<or> month = 10
    \<or> month = 11"
    by arith
  then consider "month = 0" | "month = 1" | "month = 2" | "month = 3" | "month = 4"
    | "month = 5" | "month = 6" | "month = 7" | "month = 8" | "month = 9" | "month = 10"
    | "month = 11"
    by blast
  then show ?thesis
    using b hi by cases (simp_all add: m_def d_def daysBefore_values)
qed

lemma div_decomp:
  fixes b q r :: int
  assumes "0 \<le> r" and "r < b"
  shows "(b * q + r) div b = q" and "(b * q + r) mod b = r"
  using assms by (simp_all add: div_pos_pos_trivial)

lemma div_bounds:
  fixes a b :: int
  assumes "0 < b"
  shows "b * (a div b) \<le> a" and "a < b * (a div b) + b"
proof -
  have "a = b * (a div b) + a mod b" by simp
  moreover have "0 \<le> a mod b" "a mod b < b" using assms by simp_all
  ultimately show "b * (a div b) \<le> a" and "a < b * (a div b) + b" by linarith+
qed

lemma year_part:
  fixes days :: int
  defines "n400 \<equiv> days div 146097"
  defines "d0 \<equiv> days - 146097 * n400"
  defines "a \<equiv> d0 div 36524"
  defines "n100 \<equiv> a - a div 4"
  defines "d1 \<equiv> d0 - 36524 * n100"
  defines "n4 \<equiv> d1 div 1461"
  defines "d2 \<equiv> d1 - 1461 * n4"
  defines "b \<equiv> d2 div 365"
  defines "n1 \<equiv> b - b div 4"
  defines "yday \<equiv> d2 - 365 * n1"
  defines "year \<equiv> 400 * n400 + 100 * n100 + 4 * n4 + n1 + 1"
  shows "0 \<le> yday \<and> yday \<le> 365 \<and> (yday = 365 \<longrightarrow> isLeap year)
       \<and> daysSinceEpoch year = days - yday"
proof -
  have d0: "0 \<le> d0" "d0 < 146097"
    using div_bounds [of 146097 days] by (simp_all add: d0_def n400_def)
  have a: "0 \<le> a" "a \<le> 4" "36524 * a \<le> d0" "d0 < 36524 * a + 36524"
    using div_bounds [of 36524 d0] d0 by (simp_all add: a_def)
  have n100: "n100 = (if a = 4 then 3 else a)"
  proof -
    from a have "a = 0 \<or> a = 1 \<or> a = 2 \<or> a = 3 \<or> a = 4" by arith
    then show ?thesis by (auto simp: n100_def)
  qed
  have d1: "0 \<le> d1" "d1 \<le> 36524" "n100 \<noteq> 3 \<longrightarrow> d1 \<le> 36523" "0 \<le> n100" "n100 \<le> 3"
    using a d0 by (auto simp: d1_def n100)
  have n4: "0 \<le> n4" "n4 \<le> 24" "1461 * n4 \<le> d1" "d1 < 1461 * n4 + 1461"
    using div_bounds [of 1461 d1] d1 by (simp_all add: n4_def)
  have d2: "0 \<le> d2" "d2 \<le> 1460" "n4 = 24 \<and> n100 \<noteq> 3 \<longrightarrow> d2 \<le> 1459"
    using n4 d1 by (auto simp: d2_def)
  have b: "0 \<le> b" "b \<le> 4" "365 * b \<le> d2" "d2 < 365 * b + 365"
    using div_bounds [of 365 d2] d2 by (simp_all add: b_def)
  have n1: "n1 = (if b = 4 then 3 else b)"
  proof -
    from b have "b = 0 \<or> b = 1 \<or> b = 2 \<or> b = 3 \<or> b = 4" by arith
    then show ?thesis by (auto simp: n1_def)
  qed
  have yd: "0 \<le> yday" "yday \<le> 365" "0 \<le> n1" "n1 \<le> 3"
    "yday = 365 \<longrightarrow> n1 = 3 \<and> d2 = 1460"
    using b d2 by (auto simp: yday_def n1)
  have leap: "isLeap year" if "yday = 365"
  proof -
    from that yd have n13: "n1 = 3" and d21460: "d2 = 1460" by simp_all
    have y: "year = 400 * n400 + 100 * n100 + (4 * n4 + 4)" by (simp add: year_def n13)
    have m4: "year mod 4 = 0"
    proof -
      have "year = 4 * (100 * n400 + 25 * n100 + n4 + 1)" by (simp add: y)
      then show ?thesis by simp
    qed
    show ?thesis
    proof (cases "n4 = 24")
      case True
      with d21460 d2 have "n100 = 3" by auto
      with True have "year = 400 * (n400 + 1)" by (simp add: y)
      then have "year mod 400 = 0" by simp
      with m4 show ?thesis by (simp add: isLeap_def)
    next
      case False
      with n4 have r: "0 \<le> 4 * n4 + 4" "4 * n4 + 4 < 100" by simp_all
      have e: "year = 100 * (4 * n400 + n100) + (4 * n4 + 4)" by (simp add: y)
      have "year mod 100 = 4 * n4 + 4" by (subst e) (rule div_decomp(2) [OF r])
      with n4 have "year mod 100 \<noteq> 0" by simp
      with m4 show ?thesis by (simp add: isLeap_def)
    qed
  qed
  have dse: "daysSinceEpoch year = days - yday"
  proof -
    let ?r = "100 * n100 + 4 * n4 + n1"
    have r: "0 \<le> ?r" "?r < 400" using d1 n4 yd by simp_all
    have y: "year - 1 = 400 * n400 + ?r" by (simp add: year_def)
    have q1: "(year - 1) div 400 = n400" unfolding y using div_decomp(1) [OF r] by simp
    let ?r2 = "4 * n4 + n1"
    have r2: "0 \<le> ?r2" "?r2 < 100" using n4 yd by simp_all
    have y1: "year - 1 - 400 * n400 = 100 * n100 + ?r2" by (simp add: year_def)
    have q2: "(year - 1 - 400 * n400) div 100 = n100"
      unfolding y1 using div_decomp(1) [OF r2] by simp
    have r3: "0 \<le> n1" "n1 < 4" using yd by simp_all
    have y2: "year - 1 - 400 * n400 - 100 * n100 = 4 * n4 + n1" by (simp add: year_def)
    have q3: "(year - 1 - 400 * n400 - 100 * n100) div 4 = n4"
      unfolding y2 using div_decomp(1) [OF r3] by simp
    have "daysSinceEpoch year = 146097 * n400 + 36524 * n100 + 1461 * n4 + 365 * n1"
      unfolding daysSinceEpoch_def Let_def q1 q2 q3 daysPer400Years_def
        daysPer100Years_def daysPer4Years_def
      by (simp add: year_def)
    also have "\<dots> = days - yday"
      by (simp add: yday_def d2_def d1_def d0_def)
    finally show ?thesis .
  qed
  from yd leap dse show ?thesis by blast
qed

lemma absDate_days:
  assumes "absDate days = (y, m, d)"
  shows "1 \<le> m \<and> m \<le> 12
       \<and> daysSinceEpoch y + daysBefore (m - 1) + (if isLeap y \<and> 3 \<le> m then 1 else 0)
           + (d - 1) = days"
proof -
  define n400 where "n400 = days div 146097"
  define d0 where "d0 = days - 146097 * n400"
  define a where "a = d0 div 36524"
  define n100 where "n100 = a - a div 4"
  define d1 where "d1 = d0 - 36524 * n100"
  define n4 where "n4 = d1 div 1461"
  define d2 where "d2 = d1 - 1461 * n4"
  define b where "b = d2 div 365"
  define n1 where "n1 = b - b div 4"
  define yday where "yday = d2 - 365 * n1"
  define year where "year = 400 * n400 + 100 * n100 + 4 * n4 + n1 + 1"
  note defs = year_def yday_def n1_def b_def d2_def n4_def d1_def n100_def a_def d0_def n400_def
  have yp: "0 \<le> yday \<and> yday \<le> 365 \<and> (yday = 365 \<longrightarrow> isLeap year)
      \<and> daysSinceEpoch year = days - yday"
    unfolding defs by (rule year_part)
  define day where "day = (if isLeap year \<and> yday > 31 + 29 - 1 then yday - 1 else yday)"
  have ad: "absDate days =
      (if isLeap year \<and> yday = 31 + 29 - 1 then (year, 2, 29)
       else if day \<ge> daysBefore (day div 31 + 1)
            then (year, day div 31 + 2, day - daysBefore (day div 31 + 1) + 1)
            else (year, day div 31 + 1, day - daysBefore (day div 31) + 1))"
    unfolding absDate_def day_def defs Let_def daysPer400Years_def daysPer100Years_def
      daysPer4Years_def
    by (rule refl)
  show ?thesis
  proof (cases "isLeap year \<and> yday = 31 + 29 - 1")
    case True
    with ad assms have "y = year" "m = 2" "d = 29" by simp_all
    with True yp show ?thesis by (simp add: daysBefore_values)
  next
    case False
    have range: "0 \<le> day" "day \<le> 364"
      using yp False by (auto simp: day_def)
    note mp = month_part [OF range]
    from ad assms False have y: "y = year"
      and m: "m = (if day \<ge> daysBefore (day div 31 + 1) then day div 31 + 2 else day div 31 + 1)"
      and d: "d = (if day \<ge> daysBefore (day div 31 + 1)
                   then day - daysBefore (day div 31 + 1) + 1
                   else day - daysBefore (day div 31) + 1)"
      by (auto split: if_splits)
    from mp have m12: "1 \<le> m" "m \<le> 12"
      and sum: "daysBefore (m - 1) + (d - 1) = day"
      and m3: "3 \<le> m \<longleftrightarrow> 59 \<le> day"
      unfolding m d by simp_all
    have adj: "(if isLeap y \<and> 3 \<le> m then 1 else 0) = yday - day"
      using False yp by (auto simp: y m3 day_def)
    from yp have "daysSinceEpoch y = days - yday" by (simp add: y)
    with sum adj m12 show ?thesis by simp
  qed
qed

lemma norm_in_range:
  assumes "0 \<le> lo" and "lo < base"
  shows "norm hi lo base = (hi, lo)"
  using assms by (simp add: norm_def)

lemma Clock_seconds:
  assumes "Clock t = (h, mi, s)"
  shows "abs_local t mod secondsPerDay = h * 3600 + mi * 60 + s"
  using assms by (auto simp: Clock_def Let_def)

lemma nextMidnight_sec:
  "sec (nextMidnight now) + Location now = (abs_local now div secondsPerDay + 1) * secondsPerDay"
  and nextMidnight_nsec: "nsec (nextMidnight now) = 0"
proof -
  let ?D = "abs_local now div secondsPerDay"
  obtain y m d where ad: "absDate ?D = (y, m, d)"
    by (cases "absDate ?D") auto
  note r = absDate_days [OF ad]
  have ymd: "Year now = y" "Month now = m" "Day now = d"
    by (simp_all add: Year_def Month_def Day_def ad)
  from r have n1: "norm y (m - 1) 12 = (y, m - 1)"
    by (simp add: norm_in_range)
  have n0: "norm 0 0 1000000000 = (0, 0)" "norm 0 0 60 = (0, 0)" "norm (d + 1) 0 24 = (d + 1, 0)"
    by (simp_all add: norm_in_range)
  have nm: "nextMidnight now =
      \<lparr>sec = (daysSinceEpoch y + daysBefore (m - 1) + (if isLeap y \<and> 3 \<le> m then 1 else 0)
               + (d + 1 - 1)) * secondsPerDay - Location now,
       nsec = 0, Location = Location now\<rparr>"
    by (simp add: nextMidnight_def Date_def ymd n1 n0)
  from r have "daysSinceEpoch y + daysBefore (m - 1) + (if isLeap y \<and> 3 \<le> m then 1 else 0)
      + (d + 1 - 1) = ?D + 1" by simp
  with nm have nm': "nextMidnight now =
      \<lparr>sec = (?D + 1) * secondsPerDay - Location now, nsec = 0, Location = Location now\<rparr>"
    by simp
  show "sec (nextMidnight now) + Location now = (?D + 1) * secondsPerDay"
    by (simp add: nm')
  show "nsec (nextMidnight now) = 0" by (simp add: nm')
qed

text \<open>
  Claim C6. The sleep of a scheduler cycle is computed from the wall-clock reading
  \<open>now\<close> of that cycle: in a location with a fixed offset, \<open>nextMidnight\<close> is the
  start of the next local day and \<open>duration\<close> is the time from \<open>now\<close> to it, more
  than 0 and at most 24 hours. At 23:59:59 it is one second, at 00:00:00 it is 24
  hours. Each cycle of the loop sleeps for the \<open>duration\<close> of its own reading.
\<close>

theorem duration_until_midnight:
  assumes "0 \<le> nsec now" and "nsec now < 1000000000"
  shows "duration now =
           (secondsPerDay - abs_local now mod secondsPerDay) * Second - nsec now
       \<and> sec (nextMidnight now) + Location now =
           (abs_local now div secondsPerDay + 1) * secondsPerDay
       \<and> 0 < duration now \<and> duration now \<le> 24 * 3600 * Second
       \<and> (Clock now = (23, 59, 59) \<and> nsec now = 0 \<longrightarrow> duration now = Second)
       \<and> (Clock now = (0, 0, 0) \<and> nsec now = 0 \<longrightarrow> duration now = 24 * 3600 * Second)
       \<and> fst (scheduleMidnightNotification n k wall order ev w) =
           map (\<lambda>i. duration (wall i)) [k..<k + n]"
proof -
  let ?L = "abs_local now"
  let ?S = "?L mod secondsPerDay"
  have S: "0 \<le> ?S" "?S < 86400" by (simp_all add: secondsPerDay_def)
  have L: "?L = (?L div secondsPerDay) * secondsPerDay + ?S" by simp
  have "sec (nextMidnight now) - sec now = (?L div secondsPerDay + 1) * secondsPerDay - ?L"
    using nextMidnight_sec [of now] by (simp add: abs_local_def)
  also have "\<dots> = secondsPerDay - ?S"
    using L by (simp add: algebra_simps)
  finally have diff: "sec (nextMidnight now) - sec now = secondsPerDay - ?S" .
  let ?d = "(secondsPerDay - ?S) * Second - nsec now"
  have raw: "(sec (nextMidnight now) - sec now) * Second + (nsec (nextMidnight now) - nsec now) = ?d"
    by (simp add: diff nextMidnight_nsec)
  have lo: "0 < ?d" and hi: "?d \<le> 24 * 3600 * Second"
    using S assms by (simp_all add: secondsPerDay_def Second_def)
  have dur: "duration now = ?d"
    unfolding duration_def Sub_def raw Let_def using lo hi by (simp add: Second_def)
  have c1: "duration now = Second" if "Clock now = (23, 59, 59)" "nsec now = 0"
    using Clock_seconds [OF that(1)] that(2) by (simp add: dur secondsPerDay_def)
  have c2: "duration now = 24 * 3600 * Second" if "Clock now = (0, 0, 0)" "nsec now = 0"
    using Clock_seconds [OF that(1)] that(2) by (simp add: dur secondsPerDay_def)
  have loop: "fst (scheduleMidnightNotification n k wall order ev w) =
      map (\<lambda>i. duration (wall i)) [k..<k + n]"
  proof (induction n arbitrary: k w)
    case 0
    show ?case by simp
  next
    case (Suc n)
    let ?w1 = "updateData (order k) ev w"
    obtain ds w2 where rec: "scheduleMidnightNotification n (Suc k) wall order ev ?w1 = (ds, w2)"
      by (cases "scheduleMidnightNotification n (Suc k) wall order ev ?w1")
    from Suc [of "Suc k" ?w1] rec
    have ds: "ds = map (\<lambda>i. duration (wall i)) [Suc k..<Suc k + n]" by simp
    have lhs: "fst (scheduleMidnightNotification (Suc n) k wall order ev w) =
        duration (wall k) # ds"
      by (simp add: rec Let_def)
    have "k < k + Suc n" by simp
    from upt_conv_Cons [OF this] have rng: "[k..<k + Suc n] = k # [Suc k..<Suc k + n]"
      by simp
    show ?case unfolding lhs ds rng by simp
  qed
  from dur lo hi c1 c2 loop nextMidnight_sec [of now] show ?thesis by simp
qed

theorem duration_until_midnight_witness:
  "Clock last_second = (23, 59, 59) \<and> nsec last_second = 0
   \<and> duration last_second = 1000000000
   \<and> Clock at_midnight = (0, 0, 0) \<and> nsec at_midnight = 0
   \<and> duration at_midnight = 86400000000000"
proof -
  have c1: "Clock last_second = (23, 59, 59)" and n1: "nsec last_second = 0"
    by (simp_all add: Clock_def abs_local_def last_second_def secondsPerDay_def)
  have c2: "Clock at_midnight = (0, 0, 0)" and n2: "nsec at_midnight = 0"
    by (simp_all add: Clock_def abs_local_def at_midnight_def secondsPerDay_def)
  have r1: "0 \<le> nsec last_second" "nsec last_second < 1000000000"
    by (simp_all add: n1)
  from duration_until_midnight [OF r1] c1 n1
  have "duration last_second = Second" by blast
  then have d1: "duration last_second = 1000000000" by (simp add: Second_def)
  have r2: "0 \<le> nsec at_midnight" "nsec at_midnight < 1000000000"
    by (simp_all add: n2)
  from duration_until_midnight [OF r2] c2 n2
  have "duration at_midnight = 24 * 3600 * Second" by blast
  then have d2: "duration at_midnight = 86400000000000" by (simp add: Second_def)
  from c1 n1 d1 c2 n2 d2 show ?thesis by simp
qed

end
